theory Spec2Isabelle
  imports Main "HOL-Library.Word"
begin

unbundle bit_operations_syntax

section \<open>Keyshare core: keys and configuration\<close>

text \<open>
  The Go package \<open>keysharecore\<close> holds the key material. \<open>AESKey\<close> is \<open>[32]byte\<close>;
  key identifiers are \<open>uint32\<close>. The RSA private key, the issuer public keys and the
  storage are values of other packages that the constructor only stores; they are opaque
  here, and a Go pointer or interface that may be nil is an option.
  \<open>jwtPinExpiry\<close> is a Go \<open>int\<close>; it is only compared with 0 and assigned, so it is an
  unbounded integer here.
\<close>

type_synonym AESKey = "8 word list"

typedecl rsa_PrivateKey
typedecl gabikeys_PublicKey
typedecl ConsistentStorage

record PublicKeyIdentifier =
  Issuer :: string
  Counter :: nat

record Core =
  decryptionKeys :: "32 word \<rightharpoonup> AESKey"
  decryptionKey :: AESKey
  decryptionKeyID :: "32 word"
  jwtPrivateKey :: "rsa_PrivateKey option"
  jwtPrivateKeyID :: "32 word"
  jwtIssuer :: string
  jwtPinExpiry :: int
  storage :: "ConsistentStorage option"
  trustedKeys :: "PublicKeyIdentifier \<rightharpoonup> gabikeys_PublicKey option"

record Configuration =
  DecryptionKey :: AESKey
  DecryptionKeyID :: "32 word"
  JWTPrivateKey :: "rsa_PrivateKey option"
  JWTPrivateKeyID :: "32 word"
  JWTIssuer :: string
  JWTPinExpiry :: int
  Storage :: "ConsistentStorage option"

definition JWTIssuerDefault :: string where
  "JWTIssuerDefault = ''keyshare_server''"

definition JWTPinExpiryDefault :: int where
  "JWTPinExpiryDefault = 5 * 60"

text \<open>The zero value of \<open>AESKey\<close>: 32 zero bytes.\<close>

definition zeroAESKey :: AESKey where
  "zeroAESKey = replicate 32 0"

definition DangerousAddDecryptionKey :: "32 word \<Rightarrow> AESKey \<Rightarrow> Core \<Rightarrow> Core" where
  "DangerousAddDecryptionKey keyID key c =
     c\<lparr>decryptionKeys := (decryptionKeys c)(keyID \<mapsto> key)\<rparr>"

definition setDecryptionKey :: "32 word \<Rightarrow> AESKey \<Rightarrow> Core \<Rightarrow> Core" where
  "setDecryptionKey keyID key c =
     (let c1 = c\<lparr>decryptionKeys := (decryptionKeys c)(keyID \<mapsto> key)\<rparr>;
          c2 = c1\<lparr>decryptionKey := key\<rparr>
      in c2\<lparr>decryptionKeyID := keyID\<rparr>)"

definition setJWTPrivateKey :: "32 word \<Rightarrow> rsa_PrivateKey option \<Rightarrow> Core \<Rightarrow> Core" where
  "setJWTPrivateKey ident key c =
     (let c1 = c\<lparr>jwtPrivateKey := key\<rparr>
      in c1\<lparr>jwtPrivateKeyID := ident\<rparr>)"

definition DangerousAddTrustedPublicKey ::
    "PublicKeyIdentifier \<Rightarrow> gabikeys_PublicKey option \<Rightarrow> Core \<Rightarrow> Core" where
  "DangerousAddTrustedPublicKey keyID key c =
     c\<lparr>trustedKeys := (trustedKeys c)(keyID \<mapsto> key)\<rparr>"

text \<open>
  \<open>NewKeyshareCore\<close>: the struct literal sets the two maps and the storage, every other
  field starts at its zero value; then the keys are installed and the two defaults applied.
\<close>

definition NewKeyshareCore :: "Configuration \<Rightarrow> Core" where
  "NewKeyshareCore conf =
     (let c0 = \<lparr>decryptionKeys = Map.empty, decryptionKey = zeroAESKey, decryptionKeyID = 0,
                jwtPrivateKey = None, jwtPrivateKeyID = 0, jwtIssuer = [], jwtPinExpiry = 0,
                storage = Storage conf, trustedKeys = Map.empty\<rparr>;
          c1 = setDecryptionKey (DecryptionKeyID conf) (DecryptionKey conf) c0;
          c2 = setJWTPrivateKey (JWTPrivateKeyID conf) (JWTPrivateKey conf) c1;
          c3 = c2\<lparr>jwtIssuer := JWTIssuer conf\<rparr>;
          c4 = (if jwtIssuer c3 = [] then c3\<lparr>jwtIssuer := JWTIssuerDefault\<rparr> else c3);
          c5 = c4\<lparr>jwtPinExpiry := JWTPinExpiry conf\<rparr>;
          c6 = (if jwtPinExpiry c5 = 0 then c5\<lparr>jwtPinExpiry := JWTPinExpiryDefault\<rparr> else c5)
      in c6)"

text \<open>A sequence of \<open>DangerousAddDecryptionKey\<close> calls, in order.\<close>

definition addDecryptionKeys :: "(32 word \<times> AESKey) list \<Rightarrow> Core \<Rightarrow> Core" where
  "addDecryptionKeys ks c = foldl (\<lambda>c' (i, k). DangerousAddDecryptionKey i k c') c ks"

section \<open>Keyshare server: data\<close>

text \<open>
  The handlers of the Go package \<open>keyshareserver\<close> talk to three collaborators that are
  interfaces or other packages: the user database \<open>s.db\<close>, the keyshare core's
  cryptographic operations and the JSON decoder. A handler's run is modelled as a function
  of the values these calls return (record \<open>externals\<close>) that yields the response written
  to the client, the session cache afterwards and the trace of the calls made, in order.
  Every Go function result \<open>(v, err)\<close> is a pair whose error is an option (\<open>None\<close> is
  \<open>nil\<close>).
\<close>

text \<open>
  Go \<open>error\<close> values. The handlers compare errors with the sentinels of \<open>keysharecore\<close>
  by identity; every other error is \<open>ErrOther\<close> with its text.
\<close>

datatype error = ErrInvalidPin | ErrInvalidChallenge | ErrInvalidJWT | ErrPinTooLong
  | ErrOther string

text \<open>The message of an error response: a literal, or \<open>err.Error()\<close> of an error.\<close>

datatype message = Text string | ErrorText error

datatype server_error = ErrorInvalidRequest | ErrorInternal | ErrorUserNotRegistered

text \<open>
  Modelled from the spec: the HTTP status of an error kind; the declarations of
  \<open>server.ErrorInvalidRequest\<close> and \<open>server.ErrorInternal\<close> are not among the sources.
  The spec's error taxonomy gives InvalidRequest (400) and Internal (500), and fixes no
  code for UserNotRegistered beyond 4xx, so there is no equation for it.
\<close>

fun error_status :: "server_error \<Rightarrow> nat" where
  "error_status ErrorInvalidRequest = 400"
| "error_status ErrorInternal = 500"

text \<open>
  What a handler does to the \<open>http.ResponseWriter\<close>: \<open>server.WriteError\<close>,
  \<open>server.WriteJson\<close>, \<open>server.WriteString\<close>, or nothing because it panicked.
\<close>

datatype 'a response = WriteError server_error message | WriteJson 'a | WriteString string
  | Panicked

type_synonym EncryptedKeysharePacket = "8 word list"

record KeyshareUserData =
  Username :: string
  Language :: string
  Coredata :: EncryptedKeysharePacket

record ProofPCommitment =
  pc_P :: int
  pc_Pcommit :: int

record proofPCommitmentMap =
  Commitments :: "string \<rightharpoonup> ProofPCommitment"

text \<open>
  \<open>time.Time\<close> is an instant in nanoseconds and \<open>time.Duration\<close> a number of nanoseconds;
  \<open>t.Add d\<close> is \<open>t + d\<close> and \<open>t.After u\<close> is \<open>u < t\<close>. The zero \<open>time.Time\<close> is 0.
\<close>

definition Second :: int where
  "Second = 1000000000"

record SessionData =
  LastKeyID :: PublicKeyIdentifier
  LastCommitID :: "64 word"
  expiry :: int

definition zeroSessionData :: SessionData where
  "zeroSessionData = \<lparr>LastKeyID = \<lparr>Issuer = [], Counter = 0\<rparr>, LastCommitID = 0, expiry = 0\<rparr>"

text \<open>The part of \<open>Server\<close> that the handlers change: the session cache.\<close>

record Server =
  sessions :: "string \<rightharpoonup> SessionData"

record keysharePinMessage =
  pm_Username :: string
  pm_Pin :: string

record keyshareChangePin =
  cp_Username :: string
  cp_OldPin :: string
  cp_NewPin :: string

record keysharePinStatus =
  Status :: string
  Message :: string

definition zeroPinStatus :: keysharePinStatus where
  "zeroPinStatus = \<lparr>Status = [], Message = []\<rparr>"

datatype eventType = PinCheckRefused | PinCheckSuccess | PinCheckFailed | PinCheckBlocked
  | IrmaSession

text \<open>The third argument of \<open>AddLog\<close> (an \<open>interface{}\<close>): \<open>nil\<close>, \<open>tries\<close> or \<open>wait\<close>.\<close>

datatype logParam = LogNil | LogInt int

datatype logLevel = Debug | Info | Warn | Error

text \<open>
  The calls a handler makes, as they appear in its trace. A line written to
  \<open>s.conf.Logger\<close> is recorded with its level and message, without its fields. The
  handlers are modelled one request at a time, so \<open>sessionLock\<close> does not appear; a
  read or write of \<open>s.sessions\<close> under the lock is \<open>Sessions_Read\<close> or \<open>Sessions_Write\<close>.
\<close>

datatype call =
    DB_User string
  | DB_ReservePincheck KeyshareUserData
  | DB_AddLog KeyshareUserData eventType logParam
  | DB_ClearPincheck KeyshareUserData
  | DB_SetSeen KeyshareUserData
  | DB_UpdateUser KeyshareUserData
  | Core_ValidatePin EncryptedKeysharePacket string string
  | Core_ChangePin EncryptedKeysharePacket string string
  | Core_GenerateCommitments EncryptedKeysharePacket string "PublicKeyIdentifier list"
  | Core_GenerateResponse EncryptedKeysharePacket string "64 word" int PublicKeyIdentifier
  | Sessions_Read string
  | Sessions_Write string
  | Logger logLevel string

text \<open>
  The values returned by the collaborators during one request. \<open>ReservePincheck\<close> returns
  \<open>(ok, tries, wait, err)\<close>; the interface \<open>KeyshareDB\<close> is not among the sources, and
  \<open>tries\<close> and \<open>wait\<close> are only compared with 0 and printed, so they are integers.
  \<open>time_Now\<close> is the value of the one \<open>time.Now()\<close> call of \<open>generateCommitments\<close>.
\<close>

record externals =
  db_User :: "string \<Rightarrow> KeyshareUserData \<times> error option"
  db_ReservePincheck :: "KeyshareUserData \<Rightarrow> bool \<times> int \<times> int \<times> error option"
  db_AddLog :: "KeyshareUserData \<Rightarrow> eventType \<Rightarrow> logParam \<Rightarrow> error option"
  db_ClearPincheck :: "KeyshareUserData \<Rightarrow> error option"
  db_SetSeen :: "KeyshareUserData \<Rightarrow> error option"
  db_UpdateUser :: "KeyshareUserData \<Rightarrow> error option"
  core_ValidatePin :: "EncryptedKeysharePacket \<Rightarrow> string \<Rightarrow> string \<Rightarrow> string \<times> error option"
  core_ChangePin ::
    "EncryptedKeysharePacket \<Rightarrow> string \<Rightarrow> string \<Rightarrow> EncryptedKeysharePacket \<times> error option"
  core_GenerateCommitments ::
    "EncryptedKeysharePacket \<Rightarrow> string \<Rightarrow> PublicKeyIdentifier list
       \<Rightarrow> ProofPCommitment list \<times> 64 word \<times> error option"
  core_GenerateResponse ::
    "EncryptedKeysharePacket \<Rightarrow> string \<Rightarrow> 64 word \<Rightarrow> int \<Rightarrow> PublicKeyIdentifier
       \<Rightarrow> string \<times> error option"
  MarshalText :: "PublicKeyIdentifier \<Rightarrow> string \<times> error option"
  Unmarshal_keys :: "string \<Rightarrow> PublicKeyIdentifier list \<times> error option"
  Unmarshal_challenge :: "string \<Rightarrow> int \<times> error option"
  Unmarshal_pinMessage :: "string \<Rightarrow> keysharePinMessage \<times> error option"
  Unmarshal_changePin :: "string \<Rightarrow> keyshareChangePin \<times> error option"
  time_Now :: int

text \<open>
  A request as a handler sees it: the result of \<open>ioutil.ReadAll(r.Body)\<close> and, on the
  routes behind \<open>userMiddleware\<close> and \<open>authorizationMiddleware\<close>, the three context
  values that these always install.
\<close>

record request =
  Body :: "string \<times> error option"
  ctx_user :: KeyshareUserData
  ctx_authorization :: string
  ctx_hasValidAuthorization :: bool

text \<open>\<open>fmt.Sprintf("%v", n)\<close> for an integer: its decimal numeral.\<close>

definition digit_char :: "nat \<Rightarrow> char" where
  "digit_char d = ''0123456789'' ! d"

fun decimal :: "nat \<Rightarrow> string" where
  "decimal n = (if n < 10 then [digit_char n] else decimal (n div 10) @ [digit_char (n mod 10)])"

declare decimal.simps [simp del]

definition fmt_v :: "int \<Rightarrow> string" where
  "fmt_v i = (if i < 0 then CHR ''-'' # decimal (nat (- i)) else decimal (nat i))"

section \<open>Keyshare server: the session cache and the proof handlers\<close>

text \<open>\<open>clearSessions\<close>: the sweep deletes every entry whose expiry lies before \<open>now\<close>.\<close>

definition clearSessions :: "int \<Rightarrow> Server \<Rightarrow> Server" where
  "clearSessions now s =
     s\<lparr>sessions := (\<lambda>k. case sessions s k of
                          None \<Rightarrow> None
                        | Some v \<Rightarrow> if expiry v < now then None else Some v)\<rparr>"

text \<open>
  The loop of \<open>generateCommitments\<close> over \<open>keys\<close> with its index \<open>i\<close>:
  \<open>mappedCommitments[string(keyIDV)] = commitments[i]\<close>. Reading \<open>commitments[i]\<close> beyond
  the slice's length panics.
\<close>

datatype 'a go = Return 'a | GoPanic

fun mapCommitments ::
    "externals \<Rightarrow> PublicKeyIdentifier list \<Rightarrow> ProofPCommitment list \<Rightarrow> nat
      \<Rightarrow> (string \<rightharpoonup> ProofPCommitment) \<Rightarrow> call list
      \<Rightarrow> ((string \<rightharpoonup> ProofPCommitment) \<times> error option) go \<times> call list" where
  "mapCommitments x [] commitments i mapped tr = (Return (mapped, None), tr)"
| "mapCommitments x (keyID # rest) commitments i mapped tr =
     (case MarshalText x keyID of
        (keyIDV, Some err) \<Rightarrow>
          (Return (Map.empty, Some err),
           tr @ [Logger Error ''Could not convert key identifier to string''])
      | (keyIDV, None) \<Rightarrow>
          if i < length commitments
          then mapCommitments x rest commitments (i + 1) (mapped(keyIDV \<mapsto> commitments ! i)) tr
          else (GoPanic, tr))"

definition generateCommitments ::
    "externals \<Rightarrow> Server \<Rightarrow> KeyshareUserData \<Rightarrow> string \<Rightarrow> PublicKeyIdentifier list
      \<Rightarrow> (proofPCommitmentMap \<times> error option) go \<times> Server \<times> call list" where
  "generateCommitments x s user authorization keys =
     (let t1 = [Core_GenerateCommitments (Coredata user) authorization keys] in
      case core_GenerateCommitments x (Coredata user) authorization keys of
        (commitments, commitID, Some err) \<Rightarrow>
          (Return (\<lparr>Commitments = Map.empty\<rparr>, Some err), s,
           t1 @ [Logger Warn ''Could not generate commitments for request''])
      | (commitments, commitID, None) \<Rightarrow>
          (case mapCommitments x keys commitments 0 Map.empty t1 of
             (GoPanic, t2) \<Rightarrow> (GoPanic, s, t2)
           | (Return (mapped, Some err), t2) \<Rightarrow>
               (Return (\<lparr>Commitments = Map.empty\<rparr>, Some err), s, t2)
           | (Return (mappedCommitments, None), t2) \<Rightarrow>
               (let username = Username user;
                    t3 = t2 @ [Sessions_Read username, Sessions_Write username];
                    d0 = (case sessions s username of None \<Rightarrow> zeroSessionData | Some d \<Rightarrow> d);
                    d1 = d0\<lparr>LastCommitID := commitID\<rparr>
                in case keys of
                     [] \<Rightarrow> (GoPanic, s\<lparr>sessions := (sessions s)(username \<mapsto> d1)\<rparr>, t3)
                   | key0 # _ \<Rightarrow>
                       (let d2 = d1\<lparr>LastKeyID := key0\<rparr>;
                            d3 = d2\<lparr>expiry := time_Now x + 10 * Second\<rparr>
                        in (Return (\<lparr>Commitments = mappedCommitments\<rparr>, None),
                            s\<lparr>sessions := (sessions s)(username \<mapsto> d3)\<rparr>, t3)))))"

definition handleCommitments ::
    "externals \<Rightarrow> Server \<Rightarrow> request \<Rightarrow> proofPCommitmentMap response \<times> Server \<times> call list" where
  "handleCommitments x s r =
     (let user = ctx_user r; authorization = ctx_authorization r in
      case Body r of
        (body, Some err) \<Rightarrow>
          (WriteError ErrorInvalidRequest (ErrorText err), s,
           [Logger Info ''Malformed request: could not read request body''])
      | (body, None) \<Rightarrow>
          (case Unmarshal_keys x body of
             (keys, Some err) \<Rightarrow>
               (WriteError ErrorInvalidRequest (ErrorText err), s,
                [Logger Info ''Malformed request: could not parse request body'',
                 Logger Debug ''Malformed request data''])
           | (keys, None) \<Rightarrow>
               if length keys = 0
               then (WriteError ErrorInvalidRequest (Text ''No key specified''), s,
                     [Logger Info ''Malformed request: no keys over which to commit specified''])
               else
                 (case generateCommitments x s user authorization keys of
                    (GoPanic, s', tr) \<Rightarrow> (Panicked, s', tr)
                  | (Return (commitments, Some err), s', tr) \<Rightarrow>
                      if err = ErrInvalidChallenge \<or> err = ErrInvalidJWT
                      then (WriteError ErrorInvalidRequest (ErrorText err), s', tr)
                      else (WriteError ErrorInternal (ErrorText err), s', tr)
                  | (Return (commitments, None), s', tr) \<Rightarrow> (WriteJson commitments, s', tr))))"

definition doGenerateResponses ::
    "externals \<Rightarrow> KeyshareUserData \<Rightarrow> string \<Rightarrow> int \<Rightarrow> 64 word \<Rightarrow> PublicKeyIdentifier
      \<Rightarrow> (string \<times> error option) \<times> call list" where
  "doGenerateResponses x user authorization challenge commitID keyID =
     (let t1 = [DB_SetSeen user]
               @ (case db_SetSeen x user of
                    Some err \<Rightarrow> [Logger Error ''Could not mark user as seen recently'']
                  | None \<Rightarrow> []);
          t2 = t1 @ [DB_AddLog user IrmaSession LogNil] in
      case db_AddLog x user IrmaSession LogNil of
        Some err \<Rightarrow> (([], Some err), t2 @ [Logger Error ''Could not add log entry for user''])
      | None \<Rightarrow>
          (let t3 = t2 @ [Core_GenerateResponse (Coredata user) authorization commitID
                            challenge keyID] in
           case core_GenerateResponse x (Coredata user) authorization commitID challenge keyID of
             (proofResponse, Some err) \<Rightarrow>
               (([], Some err), t3 @ [Logger Error ''Could not generate response for request''])
           | (proofResponse, None) \<Rightarrow> ((proofResponse, None), t3)))"

text \<open>
  \<open>handleResponse\<close> has no JSON body to write, so the payload type of its response is
  \<open>unit\<close>. It reads neither the clock nor the \<open>expiry\<close> field of the cache entry.
\<close>

definition handleResponse :: "externals \<Rightarrow> Server \<Rightarrow> request \<Rightarrow> unit response \<times> call list" where
  "handleResponse x s r =
     (let user = ctx_user r; username = Username user; authorization = ctx_authorization r in
      case Body r of
        (body, Some err) \<Rightarrow>
          (WriteError ErrorInvalidRequest (ErrorText err),
           [Logger Info ''Malformed request: could not read request body''])
      | (body, None) \<Rightarrow>
          (case Unmarshal_challenge x body of
             (challenge, Some err) \<Rightarrow>
               (WriteError ErrorInvalidRequest (ErrorText err),
                [Logger Info ''Malformed request: could not parse challenge''])
           | (challenge, None) \<Rightarrow>
               if \<not> ctx_hasValidAuthorization r
               then (WriteError ErrorInvalidRequest (Text ''Invalid authorization''),
                     [Logger Warn
                        ''Could not generate keyshare response due to invalid authorization''])
               else
                 (let t1 = [Sessions_Read username] in
                  case sessions s username of
                    None \<Rightarrow>
                      (WriteError ErrorInvalidRequest
                         (Text ''Missing previous call to getCommitments''),
                       t1 @ [Logger Warn
                               ''Request for response without previous call to get commitments''])
                  | Some sessionData \<Rightarrow>
                      (case doGenerateResponses x user authorization challenge
                              (LastCommitID sessionData) (LastKeyID sessionData) of
                         ((proofResponse, Some err), t2) \<Rightarrow>
                           if err = ErrInvalidChallenge \<or> err = ErrInvalidJWT
                           then (WriteError ErrorInvalidRequest (ErrorText err), t1 @ t2)
                           else (WriteError ErrorInternal (ErrorText err), t1 @ t2)
                       | ((proofResponse, None), t2) \<Rightarrow> (WriteString proofResponse, t1 @ t2)))))"

section \<open>Keyshare server: the PIN handlers\<close>

definition doVerifyPin ::
    "externals \<Rightarrow> KeyshareUserData \<Rightarrow> string \<Rightarrow> string
      \<Rightarrow> (keysharePinStatus \<times> error option) \<times> call list" where
  "doVerifyPin x user username pin =
     (let t1 = [DB_ReservePincheck user] in
      case db_ReservePincheck x user of (ok, tries, wait, err) \<Rightarrow>
        if err \<noteq> None
        then ((zeroPinStatus, None), t1 @ [Logger Error ''Could not reserve pin check slot''])
        else if \<not> ok
        then
          (let t2 = t1 @ [DB_AddLog user PinCheckRefused LogNil] in
           case db_AddLog x user PinCheckRefused LogNil of
             Some e \<Rightarrow>
               ((zeroPinStatus, Some e), t2 @ [Logger Error ''Could not add log entry for user''])
           | None \<Rightarrow> ((\<lparr>Status = ''error'', Message = fmt_v wait\<rparr>, None), t2))
        else
          (let t2 = t1 @ [Core_ValidatePin (Coredata user) pin username] in
           case core_ValidatePin x (Coredata user) pin username of (jwtt, err) \<Rightarrow>
             if err \<noteq> None \<and> err \<noteq> Some ErrInvalidPin
             then ((zeroPinStatus, err), t2 @ [Logger Error ''Could not validate pin''])
             else if err = Some ErrInvalidPin
             then
               (let t3 = t2 @ [DB_AddLog user PinCheckFailed (LogInt tries)] in
                case db_AddLog x user PinCheckFailed (LogInt tries) of
                  Some e \<Rightarrow>
                    ((zeroPinStatus, Some e),
                     t3 @ [Logger Error ''Could not add log entry for user''])
                | None \<Rightarrow>
                    if tries = 0
                    then
                      (let t4 = t3 @ [DB_AddLog user PinCheckBlocked (LogInt wait)] in
                       case db_AddLog x user PinCheckBlocked (LogInt wait) of
                         Some e \<Rightarrow>
                           ((zeroPinStatus, Some e),
                            t4 @ [Logger Error ''Could not add log entry for user''])
                       | None \<Rightarrow> ((\<lparr>Status = ''error'', Message = fmt_v wait\<rparr>, None), t4))
                    else ((\<lparr>Status = ''failure'', Message = fmt_v tries\<rparr>, None), t3))
             else
               (let t3 = t2 @ [DB_ClearPincheck user]
                         @ (case db_ClearPincheck x user of
                              Some e \<Rightarrow> [Logger Error ''Could not reset users pin check logic'']
                            | None \<Rightarrow> []);
                    t4 = t3 @ [DB_SetSeen user]
                         @ (case db_SetSeen x user of
                              Some e \<Rightarrow> [Logger Error ''Could not indicate user activity'']
                            | None \<Rightarrow> []);
                    t5 = t4 @ [DB_AddLog user PinCheckSuccess LogNil] in
                case db_AddLog x user PinCheckSuccess LogNil of
                  Some e \<Rightarrow>
                    ((zeroPinStatus, Some e),
                     t5 @ [Logger Error ''Could not add log entry for user''])
                | None \<Rightarrow> ((\<lparr>Status = ''success'', Message = jwtt\<rparr>, None), t5))))"

definition handleVerifyPin ::
    "externals \<Rightarrow> request \<Rightarrow> keysharePinStatus response \<times> call list" where
  "handleVerifyPin x r =
     (case Body r of
        (body, Some err) \<Rightarrow>
          (WriteError ErrorInvalidRequest (ErrorText err),
           [Logger Info ''Malformed request: could not read request body''])
      | (body, None) \<Rightarrow>
          (case Unmarshal_pinMessage x body of
             (msg, Some err) \<Rightarrow>
               (WriteError ErrorInvalidRequest (ErrorText err),
                [Logger Info ''Malformed request: could not parse request body''])
           | (msg, None) \<Rightarrow>
               (let t1 = [DB_User (pm_Username msg)] in
                case db_User x (pm_Username msg) of
                  (user, Some err) \<Rightarrow>
                    (WriteError ErrorUserNotRegistered (Text []),
                     t1 @ [Logger Warn ''Could not find user in db''])
                | (user, None) \<Rightarrow>
                    (case doVerifyPin x user (pm_Username msg) (pm_Pin msg) of
                       ((result, Some err), t2) \<Rightarrow>
                         (WriteError ErrorInternal (ErrorText err), t1 @ t2)
                     | ((result, None), t2) \<Rightarrow> (WriteJson result, t1 @ t2)))))"

text \<open>
  \<open>doUpdatePin\<close> assigns the first result of \<open>ChangePin\<close> to \<open>user.Data().Coredata\<close>
  whatever the error is; \<open>user'\<close> is the user after that assignment.
\<close>

definition doUpdatePin ::
    "externals \<Rightarrow> KeyshareUserData \<Rightarrow> string \<Rightarrow> string
      \<Rightarrow> (keysharePinStatus \<times> error option) \<times> call list" where
  "doUpdatePin x user oldPin newPin =
     (let t1 = [DB_ReservePincheck user] in
      case db_ReservePincheck x user of (ok, tries, wait, err) \<Rightarrow>
        if err \<noteq> None
        then ((zeroPinStatus, err), t1 @ [Logger Error ''Could not reserve pin check slot''])
        else if \<not> ok
        then ((\<lparr>Status = ''error'', Message = fmt_v wait\<rparr>, None), t1)
        else
          (let t2 = t1 @ [Core_ChangePin (Coredata user) oldPin newPin] in
           case core_ChangePin x (Coredata user) oldPin newPin of (coredata, err) \<Rightarrow>
             (let user' = user\<lparr>Coredata := coredata\<rparr> in
              if err = Some ErrInvalidPin
              then
                (if tries = 0
                 then ((\<lparr>Status = ''error'', Message = fmt_v wait\<rparr>, None), t2)
                 else ((\<lparr>Status = ''failure'', Message = fmt_v tries\<rparr>, None), t2))
              else if err \<noteq> None
              then ((zeroPinStatus, None), t2 @ [Logger Error ''Could not change pin''])
              else
                (let t3 = t2 @ [DB_ClearPincheck user']
                          @ (case db_ClearPincheck x user' of
                               Some e \<Rightarrow> [Logger Error ''Could not reset users pin check logic'']
                             | None \<Rightarrow> []);
                     t4 = t3 @ [DB_UpdateUser user'] in
                 case db_UpdateUser x user' of
                   Some e \<Rightarrow>
                     ((zeroPinStatus, Some e),
                      t4 @ [Logger Error ''Could not write updated user to database''])
                 | None \<Rightarrow> ((\<lparr>Status = ''success'', Message = []\<rparr>, None), t4)))))"

definition handleChangePin ::
    "externals \<Rightarrow> request \<Rightarrow> keysharePinStatus response \<times> call list" where
  "handleChangePin x r =
     (case Body r of
        (body, Some err) \<Rightarrow>
          (WriteError ErrorInvalidRequest (Text ''could not read request body''),
           [Logger Info ''Malformed request: could not read request body''])
      | (body, None) \<Rightarrow>
          (case Unmarshal_changePin x body of
             (msg, Some err) \<Rightarrow>
               (WriteError ErrorInvalidRequest (Text ''Invalid request''),
                [Logger Info ''Malformed request: could not parse request body''])
           | (msg, None) \<Rightarrow>
               (let t1 = [DB_User (cp_Username msg)] in
                case db_User x (cp_Username msg) of
                  (user, Some err) \<Rightarrow>
                    (WriteError ErrorUserNotRegistered (Text []),
                     t1 @ [Logger Warn ''Could not find user in db''])
                | (user, None) \<Rightarrow>
                    (case doUpdatePin x user (cp_OldPin msg) (cp_NewPin msg) of
                       ((result, Some err), t2) \<Rightarrow>
                         (WriteError ErrorInternal (ErrorText err), t1 @ t2)
                     | ((result, None), t2) \<Rightarrow> (WriteJson result, t1 @ t2)))))"

section \<open>Keyshare server: user names\<close>

text \<open>
  \<open>base64.StdEncoding.Encode\<close> of the Go standard library (RFC 4648 with padding): each
  group of three bytes gives four characters of the alphabet, a last group of one or two
  bytes is padded with \<open>=\<close>.
\<close>

definition encodeStd :: string where
  "encodeStd = ''ABCDEFGHIJKLMNOPQRSTUVWXYZabcdefghijklmnopqrstuvwxyz0123456789+/''"

fun base64_Encode :: "8 word list \<Rightarrow> string" where
  "base64_Encode [] = []"
| "base64_Encode [a] =
     (let val = push_bit 16 (unat a) in
      [encodeStd ! (drop_bit 18 val AND 0x3F), encodeStd ! (drop_bit 12 val AND 0x3F),
       CHR ''='', CHR ''=''])"
| "base64_Encode [a, b] =
     (let val = push_bit 16 (unat a) OR push_bit 8 (unat b) in
      [encodeStd ! (drop_bit 18 val AND 0x3F), encodeStd ! (drop_bit 12 val AND 0x3F),
       encodeStd ! (drop_bit 6 val AND 0x3F), CHR ''=''])"
| "base64_Encode (a # b # c # rest) =
     (let val = push_bit 16 (unat a) OR push_bit 8 (unat b) OR unat c in
      [encodeStd ! (drop_bit 18 val AND 0x3F), encodeStd ! (drop_bit 12 val AND 0x3F),
       encodeStd ! (drop_bit 6 val AND 0x3F), encodeStd ! (val AND 0x3F)]
      @ base64_Encode rest)"

text \<open>\<open>strings.ReplaceAll(s, old, new)\<close> for a pattern \<open>old\<close> of one character.\<close>

definition ReplaceAll :: "string \<Rightarrow> char \<Rightarrow> string \<Rightarrow> string" where
  "ReplaceAll s old new = concat (map (\<lambda>c. if c = old then new else [c]) s)"

text \<open>
  \<open>generateUsername\<close>: \<open>rd\<close> is the outcome of \<open>rand.Read\<close> on the 8-byte buffer, the
  bytes read and the error; an error makes the function panic.
\<close>

definition generateUsername :: "8 word list \<times> error option \<Rightarrow> string go" where
  "generateUsername rd =
     (case rd of
        (bts, Some err) \<Rightarrow> GoPanic
      | (bts, None) \<Rightarrow>
          (let raw = base64_Encode bts in
           Return (ReplaceAll (ReplaceAll (ReplaceAll raw (CHR ''+'') []) (CHR ''/'') [])
                     (CHR ''='') [])))"

definition base62 :: "char set" where
  "base62 = set ''ABCDEFGHIJKLMNOPQRSTUVWXYZabcdefghijklmnopqrstuvwxyz0123456789''"

section \<open>Sample runs\<close>

text \<open>
  Concrete collaborators for the sample runs below: one registered user \<open>alice\<close>; the
  reservation answers \<open>(ok, tries, wait)\<close> without error; the core answers the PIN
  operations with the error \<open>pinerr\<close>; every bookkeeping call succeeds.
\<close>

definition alice :: KeyshareUserData where
  "alice = \<lparr>Username = ''alice'', Language = ''en'', Coredata = [1, 2, 3]\<rparr>"

definition key1 :: PublicKeyIdentifier where
  "key1 = \<lparr>Issuer = ''irma-demo.MijnOverheid'', Counter = 1\<rparr>"

definition key2 :: PublicKeyIdentifier where
  "key2 = \<lparr>Issuer = ''irma-demo.RU'', Counter = 2\<rparr>"

definition sample :: "bool \<Rightarrow> int \<Rightarrow> int \<Rightarrow> error option \<Rightarrow> externals" where
  "sample ok tries wait pinerr =
     \<lparr>db_User = (\<lambda>n. if n = ''alice'' then (alice, None)
                       else (alice\<lparr>Username := n\<rparr>, Some (ErrOther ''user not found''))),
      db_ReservePincheck = (\<lambda>u. (ok, tries, wait, None)),
      db_AddLog = (\<lambda>u ev p. None),
      db_ClearPincheck = (\<lambda>u. None),
      db_SetSeen = (\<lambda>u. None),
      db_UpdateUser = (\<lambda>u. None),
      core_ValidatePin = (\<lambda>blob pin username. (if pinerr = None then ''jwt.alice'' else [], pinerr)),
      core_ChangePin = (\<lambda>blob oldPin newPin. (if pinerr = None then [4, 5, 6] else [], pinerr)),
      core_GenerateCommitments =
        (\<lambda>blob jwt keys. (map (\<lambda>k. \<lparr>pc_P = 0, pc_Pcommit = int (Counter k) + 7\<rparr>) keys, 42, None)),
      core_GenerateResponse = (\<lambda>blob jwt commitID challenge keyID. (''1234'', None)),
      MarshalText = (\<lambda>k. (Issuer k @ ''-'' @ decimal (Counter k), None)),
      Unmarshal_keys = (\<lambda>body. if body = ''[]'' then ([], None) else ([key1, key2], None)),
      Unmarshal_challenge = (\<lambda>body. (42, None)),
      Unmarshal_pinMessage = (\<lambda>body. (\<lparr>pm_Username = ''alice'', pm_Pin = body\<rparr>, None)),
      Unmarshal_changePin =
        (\<lambda>body. (\<lparr>cp_Username = ''alice'', cp_OldPin = body, cp_NewPin = ''54321''\<rparr>, None)),
      time_Now = 100 * Second\<rparr>"

definition dbfail :: error where
  "dbfail = ErrOther ''database unavailable''"

definition req :: "string \<Rightarrow> bool \<Rightarrow> request" where
  "req body valid = \<lparr>Body = (body, None), ctx_user = alice, ctx_authorization = ''jwt.alice'',
                     ctx_hasValidAuthorization = valid\<rparr>"

definition cached :: "int \<Rightarrow> Server" where
  "cached t = \<lparr>sessions = [''alice'' \<mapsto> \<lparr>LastKeyID = key1, LastCommitID = 42, expiry = t\<rparr>]\<rparr>"

text \<open>The string form of a key identifier: the bytes \<open>MarshalText\<close> returns.\<close>

definition keyText :: "externals \<Rightarrow> PublicKeyIdentifier \<Rightarrow> string" where
  "keyText x k = fst (MarshalText x k)"

text \<open>The calls of a trace that go to the keyshare core.\<close>

fun is_Core_call :: "call \<Rightarrow> bool" where
  "is_Core_call (Core_ValidatePin blob pin username) = True"
| "is_Core_call (Core_ChangePin blob oldPin newPin) = True"
| "is_Core_call (Core_GenerateCommitments blob jwt keys) = True"
| "is_Core_call (Core_GenerateResponse blob jwt commitID challenge keyID) = True"
| "is_Core_call c = False"

fun is_Logger :: "call \<Rightarrow> bool" where
  "is_Logger (Logger level text) = True"
| "is_Logger c = False"

text \<open>The trace without the log lines.\<close>

definition calls :: "call list \<Rightarrow> call list" where
  "calls tr = filter (\<lambda>c. \<not> is_Logger c) tr"

section \<open>Properties of the keyshare core\<close>

lemma addDecryptionKeys_Nil: "addDecryptionKeys [] c = c"
  by (simp add: addDecryptionKeys_def)

lemma addDecryptionKeys_Cons:
  "addDecryptionKeys ((i, k) # ks) c = addDecryptionKeys ks (DangerousAddDecryptionKey i k c)"
  by (simp add: addDecryptionKeys_def)

lemma addDecryptionKeys_frame:
  "addDecryptionKeys ks c = c\<lparr>decryptionKeys := decryptionKeys c ++ map_of (rev ks)\<rparr>"
proof (induction ks arbitrary: c)
  case Nil
  show ?case by (simp add: addDecryptionKeys_Nil)
next
  case (Cons p ks)
  obtain i k where p: "p = (i, k)" by (cases p)
  let ?c = "DangerousAddDecryptionKey i k c"
  have ring: "decryptionKeys ?c ++ map_of (rev ks)
        = decryptionKeys c ++ map_of (rev ((i, k) # ks))"
    by (simp add: DangerousAddDecryptionKey_def fun_eq_iff map_add_def split: option.splits)
  have "addDecryptionKeys (p # ks) c = addDecryptionKeys ks ?c"
    by (simp only: p addDecryptionKeys_Cons)
  also have "\<dots> = ?c\<lparr>decryptionKeys := decryptionKeys ?c ++ map_of (rev ks)\<rparr>"
    by (rule Cons.IH)
  also have "\<dots> = ?c\<lparr>decryptionKeys := decryptionKeys c ++ map_of (rev ((i, k) # ks))\<rparr>"
    by (simp only: ring)
  also have "\<dots> = c\<lparr>decryptionKeys := decryptionKeys c ++ map_of (rev (p # ks))\<rparr>"
    by (simp add: p DangerousAddDecryptionKey_def)
  finally show ?case .
qed

text \<open>
  C7. \<open>DangerousAddDecryptionKey keyID key\<close> stores \<open>key\<close> under \<open>keyID\<close> in the key ring
  and changes no other field of the Core. Hence after \<open>setDecryptionKey\<close> and any sequence
  of \<open>DangerousAddDecryptionKey\<close> calls the write key and its identifier are still the ones
  \<open>setDecryptionKey\<close> installed, and the ring holds the added keys (a later call for the
  same identifier wins).
\<close>

theorem DangerousAddDecryptionKey_keeps_write_key:
  "decryptionKeys (DangerousAddDecryptionKey keyID key c) = (decryptionKeys c)(keyID \<mapsto> key)
   \<and> DangerousAddDecryptionKey keyID key c
       = c\<lparr>decryptionKeys := decryptionKeys (DangerousAddDecryptionKey keyID key c)\<rparr>
   \<and> decryptionKey (DangerousAddDecryptionKey keyID key c) = decryptionKey c
   \<and> decryptionKeyID (DangerousAddDecryptionKey keyID key c) = decryptionKeyID c
   \<and> decryptionKey (addDecryptionKeys ks (setDecryptionKey keyID0 key0 c)) = key0
   \<and> decryptionKeyID (addDecryptionKeys ks (setDecryptionKey keyID0 key0 c)) = keyID0
   \<and> addDecryptionKeys ks c = c\<lparr>decryptionKeys := decryptionKeys c ++ map_of (rev ks)\<rparr>"
  by (simp add: addDecryptionKeys_frame DangerousAddDecryptionKey_def setDecryptionKey_def)

text \<open>
  C8. \<open>NewKeyshareCore\<close> applies the defaults: an empty \<open>JWTIssuer\<close> becomes
  \<open>keyshare_server\<close> and a \<open>JWTPinExpiry\<close> of 0 becomes 300 seconds; every other
  configured value is taken over unchanged.
\<close>

theorem NewKeyshareCore_defaults:
  "jwtIssuer (NewKeyshareCore conf)
     = (if JWTIssuer conf = [] then ''keyshare_server'' else JWTIssuer conf)
   \<and> jwtPinExpiry (NewKeyshareCore conf)
     = (if JWTPinExpiry conf = 0 then 300 else JWTPinExpiry conf)
   \<and> decryptionKey (NewKeyshareCore conf) = DecryptionKey conf
   \<and> decryptionKeyID (NewKeyshareCore conf) = DecryptionKeyID conf
   \<and> decryptionKeys (NewKeyshareCore conf) = [DecryptionKeyID conf \<mapsto> DecryptionKey conf]
   \<and> jwtPrivateKey (NewKeyshareCore conf) = JWTPrivateKey conf
   \<and> jwtPrivateKeyID (NewKeyshareCore conf) = JWTPrivateKeyID conf
   \<and> storage (NewKeyshareCore conf) = Storage conf
   \<and> trustedKeys (NewKeyshareCore conf) = Map.empty"
  by (simp add: NewKeyshareCore_def setDecryptionKey_def setJWTPrivateKey_def
      JWTIssuerDefault_def JWTPinExpiryDefault_def Let_def)

section \<open>User names are base62\<close>

lemma and_0x3F_less: "(n::nat) AND 0x3F < 64"
proof -
  have "n AND mask 6 = take_bit 6 n"
    by (simp add: take_bit_eq_mask)
  moreover have "take_bit 6 n < 2 ^ 6"
    by (rule take_bit_nat_less_exp)
  moreover have "(mask 6 :: nat) = 0x3F"
    by (simp add: mask_eq_exp_minus_1)
  ultimately show ?thesis by simp
qed

lemma set_encodeStd: "set encodeStd \<subseteq> base62 \<union> {CHR ''+'', CHR ''/''}"
  by (simp add: encodeStd_def base62_def)

lemma length_encodeStd: "length encodeStd = 64"
  by (simp add: encodeStd_def)

lemma encodeStd_nth: "i < 64 \<Longrightarrow> encodeStd ! i \<in> base62 \<union> {CHR ''+'', CHR ''/''}"
  using nth_mem [of i encodeStd] set_encodeStd by (auto simp only: length_encodeStd)

lemma encodeStd_sextet: "encodeStd ! (n AND 0x3F) \<in> base62 \<union> {CHR ''+'', CHR ''/''}"
  by (rule encodeStd_nth [OF and_0x3F_less])

lemma set_base64_Encode:
  "set (base64_Encode bs) \<subseteq> base62 \<union> {CHR ''+'', CHR ''/'', CHR ''=''}"
proof (induction bs rule: base64_Encode.induct)
  case 1
  show ?case by simp
next
  case (2 a)
  show ?case using encodeStd_sextet by (auto simp: Let_def)
next
  case (3 a b)
  show ?case using encodeStd_sextet by (auto simp: Let_def)
next
  case (4 a b c rest)
  then show ?case using encodeStd_sextet by (auto simp: Let_def)
qed

lemma ReplaceAll_empty: "ReplaceAll s c [] = filter (\<lambda>d. d \<noteq> c) s"
  by (induction s) (simp_all add: ReplaceAll_def)

lemma length_8_cases:
  "length (bts :: 8 word list) = 8 \<Longrightarrow> \<exists>a b c d e f g h. bts = [a, b, c, d, e, f, g, h]"
  by (auto simp: numeral_eq_Suc length_Suc_conv)

lemma base64_Encode_8:
  assumes "length bts = 8"
  shows "length (base64_Encode bts) = 12 \<and> last (base64_Encode bts) = CHR ''=''"
proof -
  from length_8_cases [OF assms] obtain a b c d e f g h
    where "bts = [a, b, c, d, e, f, g, h]" by blast
  then show ?thesis by (simp add: Let_def)
qed

lemma filter_drops_last:
  assumes "xs \<noteq> []" and "\<not> Q (last xs)"
  shows "length (filter Q xs) \<le> length xs - 1"
proof -
  have "xs = butlast xs @ [last xs]"
    using assms(1) by simp
  then have "filter Q xs = filter Q (butlast xs)"
    using assms(2) by (metis append_Nil2 filter.simps(1,2) filter_append)
  then show ?thesis
    using length_filter_le [of Q "butlast xs"] by simp
qed

text \<open>
  C9. When \<open>rand.Read\<close> has filled the 8-byte buffer, \<open>generateUsername\<close> returns the
  12-character base64 encoding of the bytes with every \<open>+\<close>, \<open>/\<close> and \<open>=\<close> removed: a
  string of base62 characters only, of length at most 11.
\<close>

theorem generateUsername_base62:
  assumes "length bts = 8"
  shows "\<exists>u. generateUsername (bts, None) = Return u
           \<and> length (base64_Encode bts) = 12
           \<and> u = filter (\<lambda>c. c \<noteq> CHR ''+'' \<and> c \<noteq> CHR ''/'' \<and> c \<noteq> CHR ''='') (base64_Encode bts)
           \<and> set u \<subseteq> base62
           \<and> length u \<le> 11"
proof -
  let ?raw = "base64_Encode bts"
  let ?Q = "\<lambda>c. c \<noteq> CHR ''+'' \<and> c \<noteq> CHR ''/'' \<and> c \<noteq> CHR ''=''"
  have run: "generateUsername (bts, None) = Return (filter ?Q ?raw)"
    by (simp add: generateUsername_def ReplaceAll_empty conj_commute conj_left_commute)
  have len: "length ?raw = 12" and lst: "last ?raw = CHR ''=''"
    using base64_Encode_8 [OF assms] by simp_all
  have chars: "set (filter ?Q ?raw) \<subseteq> base62"
    using set_base64_Encode [of bts] by auto
  have "?raw \<noteq> []"
    using len by auto
  then have "length (filter ?Q ?raw) \<le> length ?raw - 1"
    by (rule filter_drops_last) (simp add: lst)
  then have short: "length (filter ?Q ?raw) \<le> 11"
    by (simp add: len)
  show ?thesis
    using run len chars short by simp
qed

theorem generateUsername_base62_witness:
  "length [251, 255, 190, 0, 1, 2, 3, 4 :: 8 word] = 8
   \<and> generateUsername ([251, 255, 190, 0, 1, 2, 3, 4], None) = Return ''AAECAwQ''
   \<and> base64_Encode [251, 255, 190, 0, 1, 2, 3, 4] = ''+/++AAECAwQ=''
   \<and> (\<exists>u. generateUsername ([251, 255, 190, 0, 1, 2, 3, 4], None) = Return u
         \<and> set u \<subseteq> base62 \<and> length u \<le> 11)"
proof -
  have h: "length [251, 255, 190, 0, 1, 2, 3, 4 :: 8 word] = 8"
    by simp
  have "generateUsername ([251, 255, 190, 0, 1, 2, 3, 4], None) = Return ''AAECAwQ''"
    by (simp add: generateUsername_def ReplaceAll_def encodeStd_def Let_def)
  moreover have "base64_Encode [251, 255, 190, 0, 1, 2, 3, 4] = ''+/++AAECAwQ=''"
    by (simp add: encodeStd_def Let_def)
  ultimately show ?thesis
    using generateUsername_base62 [OF h] by auto
qed

section \<open>Errors of the store and of the core in the PIN handlers\<close>

text \<open>
  C5. An error of \<open>ReservePincheck\<close> in the verify-pin flow, and an error of \<open>ChangePin\<close>
  other than \<open>ErrInvalidPin\<close> in the change-pin flow, are not written as an Internal error:
  both handlers answer with the JSON of an empty \<open>keysharePinStatus\<close>. The sibling paths
  (an error of \<open>ReservePincheck\<close> in change-pin, an error of \<open>ValidatePin\<close> in verify-pin)
  do give the Internal error.
\<close>

theorem pin_handlers_swallow_errors:
  "fst (handleVerifyPin
         ((sample True 2 0 None)\<lparr>db_ReservePincheck := (\<lambda>u. (False, 0, 0, Some dbfail))\<rparr>)
         (req ''12345'' False))
     = WriteJson \<lparr>Status = [], Message = []\<rparr>
   \<and> fst (handleChangePin (sample True 2 0 (Some (ErrOther ''cannot decrypt'')))
            (req ''12345'' False))
     = WriteJson \<lparr>Status = [], Message = []\<rparr>
   \<and> fst (handleChangePin
            ((sample True 2 0 None)\<lparr>db_ReservePincheck := (\<lambda>u. (False, 0, 0, Some dbfail))\<rparr>)
            (req ''12345'' False))
     = WriteError ErrorInternal (ErrorText dbfail)
   \<and> fst (handleVerifyPin (sample True 2 0 (Some (ErrOther ''cannot decrypt'')))
            (req ''12345'' False))
     = WriteError ErrorInternal (ErrorText (ErrOther ''cannot decrypt''))
   \<and> error_status ErrorInternal = 500"
  by (simp add: handleVerifyPin_def doVerifyPin_def handleChangePin_def doUpdatePin_def
      sample_def req_def zeroPinStatus_def)

section \<open>The verify-pin case split\<close>

lemma fmt_v_60: "fmt_v 60 = ''60''"
  by (simp add: fmt_v_def decimal.simps digit_char_def)

lemma fmt_v_2: "fmt_v 2 = ''2''"
  by (simp add: fmt_v_def decimal.simps digit_char_def)

text \<open>
  C1 (as amended). For a /users/verify/pin request whose body parses and whose user is
  registered, when \<open>ReservePincheck\<close> returns no error: a refused reservation gives status
  \<open>error\<close> with the wait time; \<open>ErrInvalidPin\<close> gives \<open>failure\<close> with the remaining tries
  when these are nonzero and \<open>error\<close> with the wait time when they are zero; a correct PIN
  gives \<open>success\<close> with the JWT after the calls \<open>ClearPincheck\<close>, \<open>SetSeen\<close> and
  \<open>AddLog\<close>. Each of these answers is given only when the \<open>AddLog\<close> calls of its branch
  succeed; when one fails the handler answers with an Internal error carrying that error.
\<close>

theorem handleVerifyPin_cases:
  assumes body: "Body r = (body, None)"
      and msg: "Unmarshal_pinMessage x body = (msg, None)"
      and user: "db_User x (pm_Username msg) = (user, None)"
      and reserve: "db_ReservePincheck x user = (ok, tries, wait, None)"
      and pin: "core_ValidatePin x (Coredata user) (pm_Pin msg) (pm_Username msg) = (jwtt, err)"
  shows "(\<not> ok \<longrightarrow>
            fst (handleVerifyPin x r) =
              (case db_AddLog x user PinCheckRefused LogNil of
                 None \<Rightarrow> WriteJson \<lparr>Status = ''error'', Message = fmt_v wait\<rparr>
               | Some e \<Rightarrow> WriteError ErrorInternal (ErrorText e)))
       \<and> (ok \<and> err = Some ErrInvalidPin \<and> tries \<noteq> 0 \<longrightarrow>
            fst (handleVerifyPin x r) =
              (case db_AddLog x user PinCheckFailed (LogInt tries) of
                 None \<Rightarrow> WriteJson \<lparr>Status = ''failure'', Message = fmt_v tries\<rparr>
               | Some e \<Rightarrow> WriteError ErrorInternal (ErrorText e)))
       \<and> (ok \<and> err = Some ErrInvalidPin \<and> tries = 0 \<longrightarrow>
            fst (handleVerifyPin x r) =
              (case db_AddLog x user PinCheckFailed (LogInt tries) of
                 None \<Rightarrow>
                   (case db_AddLog x user PinCheckBlocked (LogInt wait) of
                      None \<Rightarrow> WriteJson \<lparr>Status = ''error'', Message = fmt_v wait\<rparr>
                    | Some e \<Rightarrow> WriteError ErrorInternal (ErrorText e))
               | Some e \<Rightarrow> WriteError ErrorInternal (ErrorText e)))
       \<and> (ok \<and> err = None \<longrightarrow>
            fst (handleVerifyPin x r) =
              (case db_AddLog x user PinCheckSuccess LogNil of
                 None \<Rightarrow> WriteJson \<lparr>Status = ''success'', Message = jwtt\<rparr>
               | Some e \<Rightarrow> WriteError ErrorInternal (ErrorText e))
            \<and> calls (snd (handleVerifyPin x r)) =
                [DB_User (pm_Username msg), DB_ReservePincheck user,
                 Core_ValidatePin (Coredata user) (pm_Pin msg) (pm_Username msg),
                 DB_ClearPincheck user, DB_SetSeen user,
                 DB_AddLog user PinCheckSuccess LogNil])"
  using assms
  by (auto simp: handleVerifyPin_def doVerifyPin_def calls_def Let_def split: option.splits)

theorem handleVerifyPin_cases_witness:
  "handleVerifyPin (sample False 0 60 None) (req ''12345'' False)
     = (WriteJson \<lparr>Status = ''error'', Message = ''60''\<rparr>,
        [DB_User ''alice'', DB_ReservePincheck alice, DB_AddLog alice PinCheckRefused LogNil])
   \<and> fst (handleVerifyPin (sample True 2 0 (Some ErrInvalidPin)) (req ''12345'' False))
     = WriteJson \<lparr>Status = ''failure'', Message = ''2''\<rparr>
   \<and> fst (handleVerifyPin (sample True 0 60 (Some ErrInvalidPin)) (req ''12345'' False))
     = WriteJson \<lparr>Status = ''error'', Message = ''60''\<rparr>
   \<and> fst (handleVerifyPin (sample True 2 0 None) (req ''12345'' False))
     = WriteJson \<lparr>Status = ''success'', Message = ''jwt.alice''\<rparr>
   \<and> calls (snd (handleVerifyPin (sample True 2 0 None) (req ''12345'' False)))
     = [DB_User ''alice'', DB_ReservePincheck alice, Core_ValidatePin [1, 2, 3] ''12345'' ''alice'',
        DB_ClearPincheck alice, DB_SetSeen alice, DB_AddLog alice PinCheckSuccess LogNil]"
proof -
  let ?m = "\<lparr>pm_Username = ''alice'', pm_Pin = ''12345''\<rparr>"
  have a: "handleVerifyPin (sample False 0 60 None) (req ''12345'' False)
     = (WriteJson \<lparr>Status = ''error'', Message = ''60''\<rparr>,
        [DB_User ''alice'', DB_ReservePincheck alice, DB_AddLog alice PinCheckRefused LogNil])"
    by (simp add: handleVerifyPin_def doVerifyPin_def sample_def req_def fmt_v_60)
  have b: "fst (handleVerifyPin (sample True 2 0 (Some ErrInvalidPin)) (req ''12345'' False))
     = WriteJson \<lparr>Status = ''failure'', Message = ''2''\<rparr>"
    using handleVerifyPin_cases [of "req ''12345'' False" "''12345''"
        "sample True 2 0 (Some ErrInvalidPin)" ?m alice True 2 0 "[]" "Some ErrInvalidPin"]
    by (simp add: sample_def req_def alice_def fmt_v_2)
  have c: "fst (handleVerifyPin (sample True 0 60 (Some ErrInvalidPin)) (req ''12345'' False))
     = WriteJson \<lparr>Status = ''error'', Message = ''60''\<rparr>"
    using handleVerifyPin_cases [of "req ''12345'' False" "''12345''"
        "sample True 0 60 (Some ErrInvalidPin)" ?m alice True 0 60 "[]" "Some ErrInvalidPin"]
    by (simp add: sample_def req_def alice_def fmt_v_60)
  have d: "fst (handleVerifyPin (sample True 2 0 None) (req ''12345'' False))
     = WriteJson \<lparr>Status = ''success'', Message = ''jwt.alice''\<rparr>
   \<and> calls (snd (handleVerifyPin (sample True 2 0 None) (req ''12345'' False)))
     = [DB_User ''alice'', DB_ReservePincheck alice, Core_ValidatePin [1, 2, 3] ''12345'' ''alice'',
        DB_ClearPincheck alice, DB_SetSeen alice, DB_AddLog alice PinCheckSuccess LogNil]"
    using handleVerifyPin_cases [of "req ''12345'' False" "''12345''"
        "sample True 2 0 None" ?m alice True 2 0 "''jwt.alice''" None]
    by (simp add: sample_def req_def alice_def)
  show ?thesis using a b c d by simp
qed

text \<open>
  The claim as stated fails: with a correct PIN and a failing \<open>AddLog\<close> the answer is an
  Internal error, not \<open>success\<close> with the JWT.
\<close>

theorem verifyPin_correct_pin_log_failure:
  "snd (core_ValidatePin ((sample True 2 0 None)\<lparr>db_AddLog := (\<lambda>u ev p. Some dbfail)\<rparr>)
          (Coredata alice) ''12345'' ''alice'') = None
   \<and> fst (handleVerifyPin ((sample True 2 0 None)\<lparr>db_AddLog := (\<lambda>u ev p. Some dbfail)\<rparr>)
            (req ''12345'' False))
       = WriteError ErrorInternal (ErrorText dbfail)
   \<and> fst (handleVerifyPin ((sample True 2 0 None)\<lparr>db_AddLog := (\<lambda>u ev p. Some dbfail)\<rparr>)
            (req ''12345'' False))
       \<noteq> WriteJson \<lparr>Status = ''success'', Message = ''jwt.alice''\<rparr>"
  by (simp add: handleVerifyPin_def doVerifyPin_def sample_def req_def)

section \<open>Best-effort bookkeeping\<close>

lemma doVerifyPin_bookkeeping:
  "fst (doVerifyPin (x\<lparr>db_SetSeen := f, db_ClearPincheck := g\<rparr>) user username pin)
     = fst (doVerifyPin x user username pin)"
  by (simp add: doVerifyPin_def Let_def split: prod.splits option.splits)

lemma doUpdatePin_bookkeeping:
  "fst (doUpdatePin (x\<lparr>db_SetSeen := f, db_ClearPincheck := g\<rparr>) user oldPin newPin)
     = fst (doUpdatePin x user oldPin newPin)"
  by (simp add: doUpdatePin_def Let_def split: prod.splits option.splits)

lemma doGenerateResponses_bookkeeping:
  "fst (doGenerateResponses (x\<lparr>db_SetSeen := f, db_ClearPincheck := g\<rparr>) user a c i k)
     = fst (doGenerateResponses x user a c i k)"
  by (simp add: doGenerateResponses_def Let_def split: prod.splits option.splits)

lemma fst_handleVerifyPin:
  "fst (handleVerifyPin x r) =
     (case Body r of
        (body, Some err) \<Rightarrow> WriteError ErrorInvalidRequest (ErrorText err)
      | (body, None) \<Rightarrow>
          (case Unmarshal_pinMessage x body of
             (msg, Some err) \<Rightarrow> WriteError ErrorInvalidRequest (ErrorText err)
           | (msg, None) \<Rightarrow>
               (case db_User x (pm_Username msg) of
                  (user, Some err) \<Rightarrow> WriteError ErrorUserNotRegistered (Text [])
                | (user, None) \<Rightarrow>
                    (case fst (doVerifyPin x user (pm_Username msg) (pm_Pin msg)) of
                       (result, Some err) \<Rightarrow> WriteError ErrorInternal (ErrorText err)
                     | (result, None) \<Rightarrow> WriteJson result))))"
  by (simp add: handleVerifyPin_def Let_def split: prod.splits option.splits)

lemma fst_handleChangePin:
  "fst (handleChangePin x r) =
     (case Body r of
        (body, Some err) \<Rightarrow> WriteError ErrorInvalidRequest (Text ''could not read request body'')
      | (body, None) \<Rightarrow>
          (case Unmarshal_changePin x body of
             (msg, Some err) \<Rightarrow> WriteError ErrorInvalidRequest (Text ''Invalid request'')
           | (msg, None) \<Rightarrow>
               (case db_User x (cp_Username msg) of
                  (user, Some err) \<Rightarrow> WriteError ErrorUserNotRegistered (Text [])
                | (user, None) \<Rightarrow>
                    (case fst (doUpdatePin x user (cp_OldPin msg) (cp_NewPin msg)) of
                       (result, Some err) \<Rightarrow> WriteError ErrorInternal (ErrorText err)
                     | (result, None) \<Rightarrow> WriteJson result))))"
  by (simp add: handleChangePin_def Let_def split: prod.splits option.splits)

lemma fst_handleResponse:
  "fst (handleResponse x s r) =
     (case Body r of
        (body, Some err) \<Rightarrow> WriteError ErrorInvalidRequest (ErrorText err)
      | (body, None) \<Rightarrow>
          (case Unmarshal_challenge x body of
             (challenge, Some err) \<Rightarrow> WriteError ErrorInvalidRequest (ErrorText err)
           | (challenge, None) \<Rightarrow>
               if \<not> ctx_hasValidAuthorization r
               then WriteError ErrorInvalidRequest (Text ''Invalid authorization'')
               else
                 (case sessions s (Username (ctx_user r)) of
                    None \<Rightarrow>
                      WriteError ErrorInvalidRequest
                        (Text ''Missing previous call to getCommitments'')
                  | Some sessionData \<Rightarrow>
                      (case fst (doGenerateResponses x (ctx_user r) (ctx_authorization r) challenge
                                   (LastCommitID sessionData) (LastKeyID sessionData)) of
                         (proofResponse, Some err) \<Rightarrow>
                           if err = ErrInvalidChallenge \<or> err = ErrInvalidJWT
                           then WriteError ErrorInvalidRequest (ErrorText err)
                           else WriteError ErrorInternal (ErrorText err)
                       | (proofResponse, None) \<Rightarrow> WriteString proofResponse))))"
  by (simp add: handleResponse_def Let_def split: prod.splits option.splits)

lemma mapCommitments_bookkeeping:
  "mapCommitments (x\<lparr>db_SetSeen := f, db_ClearPincheck := g\<rparr>) keys cs i m tr
     = mapCommitments x keys cs i m tr"
  by (induction keys arbitrary: i m) (simp_all split: prod.splits option.splits)

lemma generateCommitments_bookkeeping:
  "generateCommitments (x\<lparr>db_SetSeen := f, db_ClearPincheck := g\<rparr>) s user a keys
     = generateCommitments x s user a keys"
  by (simp add: generateCommitments_def mapCommitments_bookkeeping Let_def
      split: prod.splits option.splits go.splits list.splits)

lemma handleCommitments_bookkeeping:
  "handleCommitments (x\<lparr>db_SetSeen := f, db_ClearPincheck := g\<rparr>) s r = handleCommitments x s r"
  by (simp add: handleCommitments_def generateCommitments_bookkeeping Let_def
      cong: prod.case_cong option.case_cong if_cong)

text \<open>
  C6 (as amended). Failures of \<open>SetSeen\<close> and of \<open>ClearPincheck\<close> are only logged: the
  response of every handler is the same whatever these two calls return. \<open>AddLog\<close> is
  not among them.
\<close>

theorem bookkeeping_not_surfaced:
  "fst (handleVerifyPin (x\<lparr>db_SetSeen := f, db_ClearPincheck := g\<rparr>) r) = fst (handleVerifyPin x r)
   \<and> fst (handleChangePin (x\<lparr>db_SetSeen := f, db_ClearPincheck := g\<rparr>) r) = fst (handleChangePin x r)
   \<and> fst (handleResponse (x\<lparr>db_SetSeen := f, db_ClearPincheck := g\<rparr>) s r) = fst (handleResponse x s r)
   \<and> fst (handleCommitments (x\<lparr>db_SetSeen := f, db_ClearPincheck := g\<rparr>) s r)
       = fst (handleCommitments x s r)"
  by (simp add: fst_handleVerifyPin fst_handleChangePin fst_handleResponse
      doVerifyPin_bookkeeping doUpdatePin_bookkeeping doGenerateResponses_bookkeeping
      handleCommitments_bookkeeping
      cong: prod.case_cong option.case_cong if_cong)

theorem bookkeeping_not_surfaced_witness:
  "fst (handleVerifyPin
          ((sample True 2 0 None)\<lparr>db_SetSeen := (\<lambda>u. Some dbfail),
                                   db_ClearPincheck := (\<lambda>u. Some dbfail)\<rparr>)
          (req ''12345'' False))
     = WriteJson \<lparr>Status = ''success'', Message = ''jwt.alice''\<rparr>
   \<and> fst (handleChangePin
          ((sample True 2 0 None)\<lparr>db_SetSeen := (\<lambda>u. Some dbfail),
                                   db_ClearPincheck := (\<lambda>u. Some dbfail)\<rparr>)
          (req ''12345'' False))
     = WriteJson \<lparr>Status = ''success'', Message = []\<rparr>
   \<and> fst (handleResponse
          ((sample True 2 0 None)\<lparr>db_SetSeen := (\<lambda>u. Some dbfail),
                                   db_ClearPincheck := (\<lambda>u. Some dbfail)\<rparr>)
          (cached 0) (req ''42'' True))
     = WriteString ''1234''"
proof -
  have "fst (handleVerifyPin (sample True 2 0 None) (req ''12345'' False))
          = WriteJson \<lparr>Status = ''success'', Message = ''jwt.alice''\<rparr>"
    by (simp add: handleVerifyPin_def doVerifyPin_def sample_def req_def)
  moreover have "fst (handleChangePin (sample True 2 0 None) (req ''12345'' False))
          = WriteJson \<lparr>Status = ''success'', Message = []\<rparr>"
    by (simp add: handleChangePin_def doUpdatePin_def sample_def req_def Let_def)
  moreover have "fst (handleResponse (sample True 2 0 None) (cached 0) (req ''42'' True))
          = WriteString ''1234''"
    by (simp add: handleResponse_def doGenerateResponses_def sample_def req_def cached_def
        alice_def Let_def)
  ultimately show ?thesis
    using bookkeeping_not_surfaced [where x = "sample True 2 0 None" and f = "\<lambda>u. Some dbfail"
        and g = "\<lambda>u. Some dbfail" and r = "req ''12345'' False" and s = "cached 0"]
      bookkeeping_not_surfaced [where x = "sample True 2 0 None" and f = "\<lambda>u. Some dbfail"
        and g = "\<lambda>u. Some dbfail" and r = "req ''42'' True" and s = "cached 0"]
    by simp
qed

text \<open>
  The claim as stated fails for \<open>AddLog\<close>: the same requests get a different response
  when \<open>AddLog\<close> fails.
\<close>

theorem AddLog_failure_is_surfaced:
  "fst (handleVerifyPin (sample True 2 0 None) (req ''12345'' False))
     = WriteJson \<lparr>Status = ''success'', Message = ''jwt.alice''\<rparr>
   \<and> fst (handleVerifyPin ((sample True 2 0 None)\<lparr>db_AddLog := (\<lambda>u ev p. Some dbfail)\<rparr>)
            (req ''12345'' False))
     = WriteError ErrorInternal (ErrorText dbfail)
   \<and> fst (handleResponse (sample True 2 0 None) (cached 0) (req ''42'' True))
     = WriteString ''1234''
   \<and> fst (handleResponse ((sample True 2 0 None)\<lparr>db_AddLog := (\<lambda>u ev p. Some dbfail)\<rparr>)
            (cached 0) (req ''42'' True))
     = WriteError ErrorInternal (ErrorText dbfail)"
  by (simp add: handleVerifyPin_def doVerifyPin_def handleResponse_def doGenerateResponses_def
      sample_def req_def cached_def alice_def dbfail_def Let_def)

section \<open>The pincheck reservation comes first\<close>

text \<open>
  C4 (as amended). In \<open>doVerifyPin\<close> and \<open>doUpdatePin\<close> the first call is
  \<open>ReservePincheck\<close>, so it precedes any call of the core, and when the reservation fails
  or is refused the core is not called at all. A refused reservation gives status \<open>error\<close>
  with the wait in change-pin, and in verify-pin too when the \<open>PinCheckRefused\<close> log entry
  is written (when that \<open>AddLog\<close> fails, its error is returned instead). In change-pin a
  wrong old PIN ends the run after \<open>ChangePin\<close>, without \<open>ClearPincheck\<close>, with \<open>failure\<close>
  and the tries or, at zero tries, \<open>error\<close> and the wait; on success the calls are
  \<open>ClearPincheck\<close> and then \<open>UpdateUser\<close>, both with the user holding the new blob.
\<close>

theorem pincheck_precedes_crypto:
  assumes reserve: "db_ReservePincheck x user = (ok, tries, wait, rerr)"
      and change: "core_ChangePin x (Coredata user) oldPin newPin = (blob, cerr)"
  shows "(\<exists>rest. snd (doVerifyPin x user username pin) = DB_ReservePincheck user # rest)
       \<and> (\<exists>rest. snd (doUpdatePin x user oldPin newPin) = DB_ReservePincheck user # rest)
       \<and> (rerr \<noteq> None \<or> \<not> ok \<longrightarrow>
             \<not> list_ex is_Core_call (snd (doVerifyPin x user username pin))
             \<and> \<not> list_ex is_Core_call (snd (doUpdatePin x user oldPin newPin)))
       \<and> (rerr = None \<and> \<not> ok \<longrightarrow>
             doUpdatePin x user oldPin newPin
               = ((\<lparr>Status = ''error'', Message = fmt_v wait\<rparr>, None), [DB_ReservePincheck user])
             \<and> fst (doVerifyPin x user username pin)
               = (case db_AddLog x user PinCheckRefused LogNil of
                    None \<Rightarrow> (\<lparr>Status = ''error'', Message = fmt_v wait\<rparr>, None)
                  | Some e \<Rightarrow> (zeroPinStatus, Some e)))
       \<and> (rerr = None \<and> ok \<and> cerr = Some ErrInvalidPin \<longrightarrow>
             doUpdatePin x user oldPin newPin
               = ((if tries = 0 then \<lparr>Status = ''error'', Message = fmt_v wait\<rparr>
                   else \<lparr>Status = ''failure'', Message = fmt_v tries\<rparr>, None),
                  [DB_ReservePincheck user, Core_ChangePin (Coredata user) oldPin newPin]))
       \<and> (rerr = None \<and> ok \<and> cerr = None \<longrightarrow>
             calls (snd (doUpdatePin x user oldPin newPin))
               = [DB_ReservePincheck user, Core_ChangePin (Coredata user) oldPin newPin,
                  DB_ClearPincheck (user\<lparr>Coredata := blob\<rparr>),
                  DB_UpdateUser (user\<lparr>Coredata := blob\<rparr>)]
             \<and> fst (doUpdatePin x user oldPin newPin)
               = (case db_UpdateUser x (user\<lparr>Coredata := blob\<rparr>) of
                    None \<Rightarrow> (\<lparr>Status = ''success'', Message = []\<rparr>, None)
                  | Some e \<Rightarrow> (zeroPinStatus, Some e)))"
proof -
  have v: "\<exists>rest. snd (doVerifyPin x user username pin) = DB_ReservePincheck user # rest"
    by (simp add: doVerifyPin_def Let_def split: prod.splits option.splits)
  have u: "\<exists>rest. snd (doUpdatePin x user oldPin newPin) = DB_ReservePincheck user # rest"
    by (simp add: doUpdatePin_def Let_def split: prod.splits option.splits)
  have nocore: "rerr \<noteq> None \<or> \<not> ok \<longrightarrow>
             \<not> list_ex is_Core_call (snd (doVerifyPin x user username pin))
             \<and> \<not> list_ex is_Core_call (snd (doUpdatePin x user oldPin newPin))"
    using reserve
    by (auto simp: doVerifyPin_def doUpdatePin_def Let_def split: option.splits)
  have refused: "rerr = None \<and> \<not> ok \<longrightarrow>
             doUpdatePin x user oldPin newPin
               = ((\<lparr>Status = ''error'', Message = fmt_v wait\<rparr>, None), [DB_ReservePincheck user])
             \<and> fst (doVerifyPin x user username pin)
               = (case db_AddLog x user PinCheckRefused LogNil of
                    None \<Rightarrow> (\<lparr>Status = ''error'', Message = fmt_v wait\<rparr>, None)
                  | Some e \<Rightarrow> (zeroPinStatus, Some e))"
    using reserve
    by (auto simp: doVerifyPin_def doUpdatePin_def Let_def split: option.splits)
  have wrong: "rerr = None \<and> ok \<and> cerr = Some ErrInvalidPin \<longrightarrow>
             doUpdatePin x user oldPin newPin
               = ((if tries = 0 then \<lparr>Status = ''error'', Message = fmt_v wait\<rparr>
                   else \<lparr>Status = ''failure'', Message = fmt_v tries\<rparr>, None),
                  [DB_ReservePincheck user, Core_ChangePin (Coredata user) oldPin newPin])"
    using reserve change
    by (auto simp: doUpdatePin_def Let_def)
  have good: "rerr = None \<and> ok \<and> cerr = None \<longrightarrow>
             calls (snd (doUpdatePin x user oldPin newPin))
               = [DB_ReservePincheck user, Core_ChangePin (Coredata user) oldPin newPin,
                  DB_ClearPincheck (user\<lparr>Coredata := blob\<rparr>),
                  DB_UpdateUser (user\<lparr>Coredata := blob\<rparr>)]
             \<and> fst (doUpdatePin x user oldPin newPin)
               = (case db_UpdateUser x (user\<lparr>Coredata := blob\<rparr>) of
                    None \<Rightarrow> (\<lparr>Status = ''success'', Message = []\<rparr>, None)
                  | Some e \<Rightarrow> (zeroPinStatus, Some e))"
    using reserve change
    by (auto simp: doUpdatePin_def calls_def Let_def split: option.splits)
  show ?thesis
    using v u nocore refused wrong good by blast
qed

theorem pincheck_precedes_crypto_witness:
  "doUpdatePin (sample False 0 60 None) alice ''12345'' ''54321''
     = ((\<lparr>Status = ''error'', Message = ''60''\<rparr>, None), [DB_ReservePincheck alice])
   \<and> doUpdatePin (sample True 2 0 (Some ErrInvalidPin)) alice ''12345'' ''54321''
     = ((\<lparr>Status = ''failure'', Message = ''2''\<rparr>, None),
        [DB_ReservePincheck alice, Core_ChangePin [1, 2, 3] ''12345'' ''54321''])
   \<and> doUpdatePin (sample True 0 60 (Some ErrInvalidPin)) alice ''12345'' ''54321''
     = ((\<lparr>Status = ''error'', Message = ''60''\<rparr>, None),
        [DB_ReservePincheck alice, Core_ChangePin [1, 2, 3] ''12345'' ''54321''])
   \<and> doUpdatePin (sample True 2 0 None) alice ''12345'' ''54321''
     = ((\<lparr>Status = ''success'', Message = []\<rparr>, None),
        [DB_ReservePincheck alice, Core_ChangePin [1, 2, 3] ''12345'' ''54321'',
         DB_ClearPincheck (alice\<lparr>Coredata := [4, 5, 6]\<rparr>),
         DB_UpdateUser (alice\<lparr>Coredata := [4, 5, 6]\<rparr>)])
   \<and> doVerifyPin (sample False 0 60 None) alice ''alice'' ''12345''
     = ((\<lparr>Status = ''error'', Message = ''60''\<rparr>, None),
        [DB_ReservePincheck alice, DB_AddLog alice PinCheckRefused LogNil])"
proof -
  have a: "doUpdatePin (sample False 0 60 None) alice ''12345'' ''54321''
     = ((\<lparr>Status = ''error'', Message = ''60''\<rparr>, None), [DB_ReservePincheck alice])"
    using pincheck_precedes_crypto [where x = "sample False 0 60 None" and user = alice
        and ok = False and tries = 0 and wait = 60 and rerr = None and oldPin = "''12345''"
        and newPin = "''54321''" and blob = "[4, 5, 6]" and cerr = None]
    by (simp add: sample_def fmt_v_60)
  have b: "doUpdatePin (sample True 2 0 (Some ErrInvalidPin)) alice ''12345'' ''54321''
     = ((\<lparr>Status = ''failure'', Message = ''2''\<rparr>, None),
        [DB_ReservePincheck alice, Core_ChangePin [1, 2, 3] ''12345'' ''54321''])"
    using pincheck_precedes_crypto [where x = "sample True 2 0 (Some ErrInvalidPin)"
        and user = alice and ok = True and tries = 2 and wait = 0 and rerr = None
        and oldPin = "''12345''" and newPin = "''54321''" and blob = "[]"
        and cerr = "Some ErrInvalidPin"]
    by (simp add: sample_def fmt_v_2 alice_def)
  have c: "doUpdatePin (sample True 0 60 (Some ErrInvalidPin)) alice ''12345'' ''54321''
     = ((\<lparr>Status = ''error'', Message = ''60''\<rparr>, None),
        [DB_ReservePincheck alice, Core_ChangePin [1, 2, 3] ''12345'' ''54321''])"
    using pincheck_precedes_crypto [where x = "sample True 0 60 (Some ErrInvalidPin)"
        and user = alice and ok = True and tries = 0 and wait = 60 and rerr = None
        and oldPin = "''12345''" and newPin = "''54321''" and blob = "[]"
        and cerr = "Some ErrInvalidPin"]
    by (simp add: sample_def fmt_v_60 alice_def)
  have d: "doUpdatePin (sample True 2 0 None) alice ''12345'' ''54321''
     = ((\<lparr>Status = ''success'', Message = []\<rparr>, None),
        [DB_ReservePincheck alice, Core_ChangePin [1, 2, 3] ''12345'' ''54321'',
         DB_ClearPincheck (alice\<lparr>Coredata := [4, 5, 6]\<rparr>),
         DB_UpdateUser (alice\<lparr>Coredata := [4, 5, 6]\<rparr>)])"
    by (simp add: doUpdatePin_def sample_def Let_def alice_def)
  have e: "doVerifyPin (sample False 0 60 None) alice ''alice'' ''12345''
     = ((\<lparr>Status = ''error'', Message = ''60''\<rparr>, None),
        [DB_ReservePincheck alice, DB_AddLog alice PinCheckRefused LogNil])"
    by (simp add: doVerifyPin_def sample_def Let_def fmt_v_60)
  show ?thesis using a b c d e by simp
qed

text \<open>
  The claim as stated fails in the verify-pin flow: a refused reservation whose log entry
  cannot be written is answered with an Internal error, not with status \<open>error\<close>.
\<close>

theorem verifyPin_refused_log_failure:
  "fst (db_ReservePincheck ((sample False 0 60 None)\<lparr>db_AddLog := (\<lambda>u ev p. Some dbfail)\<rparr>) alice)
     = False
   \<and> doVerifyPin ((sample False 0 60 None)\<lparr>db_AddLog := (\<lambda>u ev p. Some dbfail)\<rparr>)
        alice ''alice'' ''12345''
     = ((\<lparr>Status = [], Message = []\<rparr>, Some dbfail),
        [DB_ReservePincheck alice, DB_AddLog alice PinCheckRefused LogNil,
         Logger Error ''Could not add log entry for user''])
   \<and> fst (handleVerifyPin ((sample False 0 60 None)\<lparr>db_AddLog := (\<lambda>u ev p. Some dbfail)\<rparr>)
            (req ''12345'' False))
     = WriteError ErrorInternal (ErrorText dbfail)
   \<and> fst (handleVerifyPin ((sample False 0 60 None)\<lparr>db_AddLog := (\<lambda>u ev p. Some dbfail)\<rparr>)
            (req ''12345'' False))
     \<noteq> WriteJson \<lparr>Status = ''error'', Message = ''60''\<rparr>"
  by (simp add: handleVerifyPin_def doVerifyPin_def sample_def req_def zeroPinStatus_def Let_def)

section \<open>The response handler and the session cache\<close>




text \<open>
  C10. \<open>handleResponse\<close> never looks at the expiry of the cache entry: an authorized
  request that finds an entry already expired at time \<open>now\<close>, which the sweep
  \<open>clearSessions now\<close> would delete, still calls \<open>GenerateResponse\<close> with the cached
  commit ID and key ID and succeeds when the core does; the run is the same for every
  value of the entry's expiry. After the sweep the same request is refused.
\<close>

theorem handleResponse_ignores_expiry:
  assumes body: "Body r = (body, None)"
      and challenge: "Unmarshal_challenge x body = (challenge, None)"
      and valid: "ctx_hasValidAuthorization r"
      and entry: "sessions s (Username (ctx_user r)) = Some d"
      and expired: "expiry d < now"
      and log: "db_AddLog x (ctx_user r) IrmaSession LogNil = None"
      and core: "core_GenerateResponse x (Coredata (ctx_user r)) (ctx_authorization r)
                   (LastCommitID d) challenge (LastKeyID d) = (proofResponse, None)"
  shows "fst (handleResponse x s r) = WriteString proofResponse
       \<and> Core_GenerateResponse (Coredata (ctx_user r)) (ctx_authorization r)
            (LastCommitID d) challenge (LastKeyID d) \<in> set (snd (handleResponse x s r))
       \<and> (\<forall>t. handleResponse x (s\<lparr>sessions := (sessions s)(Username (ctx_user r) \<mapsto> d\<lparr>expiry := t\<rparr>)\<rparr>) r
                = handleResponse x s r)
       \<and> sessions (clearSessions now s) (Username (ctx_user r)) = None
       \<and> fst (handleResponse x (clearSessions now s) r)
            = WriteError ErrorInvalidRequest (Text ''Missing previous call to getCommitments'')"
  using assms
  by (auto simp: handleResponse_def doGenerateResponses_def clearSessions_def Let_def)

theorem handleResponse_ignores_expiry_witness:
  "expiry \<lparr>LastKeyID = key1, LastCommitID = 42, expiry = 5 * Second\<rparr> < 100 * Second
   \<and> fst (handleResponse (sample True 2 0 None) (cached (5 * Second)) (req ''42'' True))
       = WriteString ''1234''
   \<and> sessions (clearSessions (100 * Second) (cached (5 * Second))) ''alice'' = None"
  using handleResponse_ignores_expiry [where x = "sample True 2 0 None"
      and r = "req ''42'' True" and s = "cached (5 * Second)" and body = "''42''"
      and challenge = 42 and now = "100 * Second" and proofResponse = "''1234''"
      and d = "\<lparr>LastKeyID = key1, LastCommitID = 42, expiry = 5 * Second\<rparr>"]
  by (simp add: sample_def req_def cached_def alice_def Second_def)

section \<open>The commitments handler\<close>

lemma mapCommitments_trace:
  "mapCommitments x keys cs i m tr = (Return (m', None), tr') \<Longrightarrow> tr' = tr"
  by (induction keys arbitrary: i m) (auto split: prod.splits option.splits if_splits)

lemma mapCommitments_other:
  "mapCommitments x keys cs i m tr = (Return (m', None), tr') \<Longrightarrow>
   t \<notin> keyText x ` set keys \<Longrightarrow> m' t = m t"
  by (induction keys arbitrary: i m)
     (auto simp: keyText_def split: prod.splits option.splits if_splits)

lemma mapCommitments_dom:
  "mapCommitments x keys cs i m tr = (Return (m', None), tr') \<Longrightarrow>
   dom m' = dom m \<union> keyText x ` set keys"
  by (induction keys arbitrary: i m)
     (auto simp: keyText_def split: prod.splits option.splits if_splits)

lemma mapCommitments_nth:
  "mapCommitments x keys cs i m tr = (Return (m', None), tr') \<Longrightarrow>
   j < length keys \<Longrightarrow>
   (\<forall>l. j < l \<and> l < length keys \<longrightarrow> keyText x (keys ! l) \<noteq> keyText x (keys ! j)) \<Longrightarrow>
   m' (keyText x (keys ! j)) = Some (cs ! (i + j)) \<and> i + j < length cs"
proof (induction keys arbitrary: i m j)
  case Nil
  then show ?case by simp
next
  case (Cons k ks)
  obtain t where t: "MarshalText x k = (t, None)"
    using Cons.prems(1) by (auto split: prod.splits option.splits)
  have i: "i < length cs"
    using Cons.prems(1) t by (auto split: if_splits)
  have rest: "mapCommitments x ks cs (i + 1) (m(t \<mapsto> cs ! i)) tr = (Return (m', None), tr')"
    using Cons.prems(1) t i by simp
  show ?case
  proof (cases j)
    case 0
    have "keyText x k \<notin> keyText x ` set ks"
    proof
      assume "keyText x k \<in> keyText x ` set ks"
      then obtain l where "l < length ks" "keyText x (ks ! l) = keyText x k"
        by (auto simp: in_set_conv_nth)
      then show False
        using Cons.prems(3) 0 by (auto dest: spec [of _ "Suc l"])
    qed
    from mapCommitments_other [OF rest this] show ?thesis
      using 0 t i by (simp add: keyText_def)
  next
    case (Suc j')
    have "j' < length ks"
      using Cons.prems(2) Suc by simp
    moreover have "\<forall>l. j' < l \<and> l < length ks \<longrightarrow> keyText x (ks ! l) \<noteq> keyText x (ks ! j')"
      using Cons.prems(3) Suc by (auto dest: spec [of _ "Suc l" for l])
    ultimately show ?thesis
      using Cons.IH [OF rest] Suc by simp
  qed
qed


lemma generateCommitments_success:
  assumes run: "generateCommitments x s user a keys = (Return (resp, None), s', tr)"
      and core: "core_GenerateCommitments x (Coredata user) a keys = (cs, commitID, cerr)"
  shows "\<exists>tr1. mapCommitments x keys cs 0 Map.empty
                 [Core_GenerateCommitments (Coredata user) a keys]
               = (Return (Commitments resp, None), tr1)"
    and "keys \<noteq> []"
    and "sessions s' = (sessions s)(Username user \<mapsto>
           \<lparr>LastKeyID = keys ! 0, LastCommitID = commitID, expiry = time_Now x + 10 * Second\<rparr>)"
  using run core
  by (auto simp: generateCommitments_def Let_def zeroSessionData_def
      simp del: mapCommitments.simps
      split: option.splits go.splits prod.splits list.splits)

lemma handleCommitments_success:
  assumes "handleCommitments x s r = (WriteJson resp, s', tr)"
      and "Body r = (body, None)"
      and "Unmarshal_keys x body = (keys, None)"
  shows "generateCommitments x s (ctx_user r) (ctx_authorization r) keys
           = (Return (resp, None), s', tr)"
  using assms
  by (auto simp: handleCommitments_def Let_def
      split: option.splits go.splits prod.splits if_splits)

lemma mapCommitments_succeeds:
  "\<forall>k \<in> set keys. snd (MarshalText x k) = None \<Longrightarrow> i + length keys \<le> length cs \<Longrightarrow>
   \<exists>m'. mapCommitments x keys cs i m tr = (Return (m', None), tr)"
proof (induction keys arbitrary: i m)
  case Nil
  show ?case by simp
next
  case (Cons k ks)
  obtain t where t: "MarshalText x k = (t, None)"
    using Cons.prems(1) by (cases "MarshalText x k") auto
  have "\<exists>m'. mapCommitments x ks cs (i + 1) (m(t \<mapsto> cs ! i)) tr = (Return (m', None), tr)"
    using Cons.prems by (intro Cons.IH) auto
  then show ?case
    using t Cons.prems(2) by simp
qed

lemma SessionData_overwrite:
  "(d :: SessionData)\<lparr>LastCommitID := c, LastKeyID := k, expiry := e\<rparr>
     = \<lparr>LastKeyID = k, LastCommitID = c, expiry = e\<rparr>"
  by (cases d) simp

lemma generateCommitments_succeeds:
  assumes core: "core_GenerateCommitments x (Coredata user) a keys = (cs, commitID, None)"
      and nonempty: "keys \<noteq> []"
      and texts: "\<forall>k \<in> set keys. snd (MarshalText x k) = None"
      and enough: "length keys \<le> length cs"
  shows "\<exists>resp. generateCommitments x s user a keys
           = (Return (resp, None),
              s\<lparr>sessions := (sessions s)(Username user \<mapsto>
                   \<lparr>LastKeyID = keys ! 0, LastCommitID = commitID,
                     expiry = time_Now x + 10 * Second\<rparr>)\<rparr>,
              [Core_GenerateCommitments (Coredata user) a keys,
               Sessions_Read (Username user), Sessions_Write (Username user)])"
proof -
  let ?t1 = "[Core_GenerateCommitments (Coredata user) a keys]"
  from mapCommitments_succeeds [OF texts, of 0 cs Map.empty ?t1] enough
  obtain m' where loop: "mapCommitments x keys cs 0 Map.empty ?t1 = (Return (m', None), ?t1)"
    by auto
  obtain k0 rest where ks: "keys = k0 # rest"
    using nonempty by (cases keys) auto
  have "generateCommitments x s user a keys
           = (Return (\<lparr>Commitments = m'\<rparr>, None),
              s\<lparr>sessions := (sessions s)(Username user \<mapsto>
                   \<lparr>LastKeyID = keys ! 0, LastCommitID = commitID,
                     expiry = time_Now x + 10 * Second\<rparr>)\<rparr>,
              [Core_GenerateCommitments (Coredata user) a keys,
               Sessions_Read (Username user), Sessions_Write (Username user)])"
    unfolding generateCommitments_def Let_def
    using core loop
    by (simp add: ks zeroSessionData_def SessionData_overwrite del: mapCommitments.simps
        split: option.splits)
  then show ?thesis by blast
qed

text \<open>
  C3. For a /prove/getCommitments request whose body parses to the key list \<open>keys\<close>:
  an empty list is answered with the InvalidRequest (400) error \<open>No key specified\<close>, the
  cache is unchanged and nothing but the log line happens, so the core is not called.
  For a nonempty list the handler succeeds when the core returns no error and at least as
  many commitments as keys and every key has a string form: it then answers with the JSON
  of the commitments after one call of the core, and the cache afterwards is the old one
  with the user's entry replaced by the commit ID returned by the core, the first key of
  the list and the expiry \<open>now + 10 s\<close>, whatever the entry was before, also when there
  was none. Conversely, whenever the handler answers with that JSON these conditions on
  the list and the core hold and the cache entry is that one; the keys of the answer are
  the string forms of the requested keys, and each string form is mapped to the commitment
  at its key's index (for a string form that occurs more than once, at its last index, as
  in a Go map).
\<close>

theorem handleCommitments_cases:
  assumes body: "Body r = (body, None)"
      and keys: "Unmarshal_keys x body = (keys, None)"
      and core: "core_GenerateCommitments x (Coredata (ctx_user r)) (ctx_authorization r) keys
                   = (cs, commitID, cerr)"
  shows "(keys = [] \<longrightarrow>
            handleCommitments x s r
              = (WriteError ErrorInvalidRequest (Text ''No key specified''), s,
                 [Logger Info ''Malformed request: no keys over which to commit specified''])
            \<and> error_status ErrorInvalidRequest = 400)
       \<and> (keys \<noteq> [] \<and> cerr = None \<and> (\<forall>k \<in> set keys. snd (MarshalText x k) = None)
            \<and> length keys \<le> length cs \<longrightarrow>
            (\<exists>resp. handleCommitments x s r
               = (WriteJson resp,
                  s\<lparr>sessions := (sessions s)(Username (ctx_user r) \<mapsto>
                       \<lparr>LastKeyID = keys ! 0, LastCommitID = commitID,
                         expiry = time_Now x + 10 * Second\<rparr>)\<rparr>,
                  [Core_GenerateCommitments (Coredata (ctx_user r)) (ctx_authorization r) keys,
                   Sessions_Read (Username (ctx_user r)),
                   Sessions_Write (Username (ctx_user r))])))
       \<and> (\<forall>resp s' tr. handleCommitments x s r = (WriteJson resp, s', tr) \<longrightarrow>
            sessions s' = (sessions s)(Username (ctx_user r) \<mapsto>
              \<lparr>LastKeyID = keys ! 0, LastCommitID = commitID,
                expiry = time_Now x + 10 * Second\<rparr>)
            \<and> keys \<noteq> [] \<and> cerr = None \<and> length keys \<le> length cs
            \<and> dom (Commitments resp) = keyText x ` set keys
            \<and> (\<forall>j < length keys.
                  (\<forall>l. j < l \<and> l < length keys \<longrightarrow> keyText x (keys ! l) \<noteq> keyText x (keys ! j))
                  \<longrightarrow> Commitments resp (keyText x (keys ! j)) = Some (cs ! j)))"
proof (intro conjI allI impI)
  assume "keys = []"
  then show "handleCommitments x s r
              = (WriteError ErrorInvalidRequest (Text ''No key specified''), s,
                 [Logger Info ''Malformed request: no keys over which to commit specified''])"
    using body keys by (simp add: handleCommitments_def)
next
  show "error_status ErrorInvalidRequest = 400" by simp
next
  assume good: "keys \<noteq> [] \<and> cerr = None \<and> (\<forall>k \<in> set keys. snd (MarshalText x k) = None)
            \<and> length keys \<le> length cs"
  then have core': "core_GenerateCommitments x (Coredata (ctx_user r)) (ctx_authorization r) keys
                   = (cs, commitID, None)"
    using core by simp
  from generateCommitments_succeeds [OF core', of s] good
  obtain resp where "generateCommitments x s (ctx_user r) (ctx_authorization r) keys
           = (Return (resp, None),
              s\<lparr>sessions := (sessions s)(Username (ctx_user r) \<mapsto>
                   \<lparr>LastKeyID = keys ! 0, LastCommitID = commitID,
                     expiry = time_Now x + 10 * Second\<rparr>)\<rparr>,
              [Core_GenerateCommitments (Coredata (ctx_user r)) (ctx_authorization r) keys,
               Sessions_Read (Username (ctx_user r)), Sessions_Write (Username (ctx_user r))])"
    by blast
  then show "\<exists>resp. handleCommitments x s r
               = (WriteJson resp,
                  s\<lparr>sessions := (sessions s)(Username (ctx_user r) \<mapsto>
                       \<lparr>LastKeyID = keys ! 0, LastCommitID = commitID,
                         expiry = time_Now x + 10 * Second\<rparr>)\<rparr>,
                  [Core_GenerateCommitments (Coredata (ctx_user r)) (ctx_authorization r) keys,
                   Sessions_Read (Username (ctx_user r)),
                   Sessions_Write (Username (ctx_user r))])"
    using body keys good by (simp add: handleCommitments_def)
next
  fix resp s' tr
  assume ok: "handleCommitments x s r = (WriteJson resp, s', tr)"
  note gen = handleCommitments_success [OF ok body keys]
  from generateCommitments_success(3) [OF gen core]
  show "sessions s' = (sessions s)(Username (ctx_user r) \<mapsto>
              \<lparr>LastKeyID = keys ! 0, LastCommitID = commitID,
                expiry = time_Now x + 10 * Second\<rparr>)" .
  from generateCommitments_success(2) [OF gen core] show ne: "keys \<noteq> []" .
  show "cerr = None"
    using gen core by (auto simp: generateCommitments_def Let_def split: option.splits)
  from generateCommitments_success(1) [OF gen core] obtain tr0 tr1
    where loop: "mapCommitments x keys cs 0 Map.empty tr0 = (Return (Commitments resp, None), tr1)"
    by blast
  have last: "\<forall>l. length keys - 1 < l \<and> l < length keys \<longrightarrow>
        keyText x (keys ! l) \<noteq> keyText x (keys ! (length keys - 1))"
    by auto
  have "length keys - 1 < length keys" using ne by simp
  from mapCommitments_nth [OF loop this last] show "length keys \<le> length cs"
    using ne by (cases keys) auto
  from mapCommitments_dom [OF loop] show "dom (Commitments resp) = keyText x ` set keys"
    by simp
  fix j
  assume "j < length keys"
    and "\<forall>l. j < l \<and> l < length keys \<longrightarrow> keyText x (keys ! l) \<noteq> keyText x (keys ! j)"
  from mapCommitments_nth [OF loop this]
  show "Commitments resp (keyText x (keys ! j)) = Some (cs ! j)"
    by simp
qed

lemma decimal_1: "decimal (Suc 0) = ''1''"
  by (simp add: decimal.simps digit_char_def)

lemma decimal_2: "decimal 2 = ''2''"
  by (simp add: decimal.simps digit_char_def)

lemma keyText_key1: "keyText (sample ok tries wait pinerr) key1 = ''irma-demo.MijnOverheid-1''"
  by (simp add: keyText_def sample_def key1_def decimal_1)

lemma keyText_key2: "keyText (sample ok tries wait pinerr) key2 = ''irma-demo.RU-2''"
  by (simp add: keyText_def sample_def key2_def decimal_2)

theorem handleCommitments_cases_witness:
  "handleCommitments (sample True 2 0 None) (cached 0) (req ''[]'' True)
     = (WriteError ErrorInvalidRequest (Text ''No key specified''), cached 0,
        [Logger Info ''Malformed request: no keys over which to commit specified''])
   \<and> (\<exists>resp.
         handleCommitments (sample True 2 0 None) \<lparr>sessions = Map.empty\<rparr> (req ''[1,2]'' True)
           = (WriteJson resp,
              \<lparr>sessions = [''alice'' \<mapsto> \<lparr>LastKeyID = key1, LastCommitID = 42,
                                          expiry = 110 * Second\<rparr>]\<rparr>,
              [Core_GenerateCommitments [1, 2, 3] ''jwt.alice'' [key1, key2],
               Sessions_Read ''alice'', Sessions_Write ''alice''])
         \<and> Commitments resp ''irma-demo.MijnOverheid-1'' = Some \<lparr>pc_P = 0, pc_Pcommit = 8\<rparr>
         \<and> Commitments resp ''irma-demo.RU-2'' = Some \<lparr>pc_P = 0, pc_Pcommit = 9\<rparr>
         \<and> dom (Commitments resp) = {''irma-demo.MijnOverheid-1'', ''irma-demo.RU-2''})"
proof -
  let ?x = "sample True 2 0 None"
  let ?s0 = "\<lparr>sessions = Map.empty\<rparr>"
  let ?cs = "[\<lparr>pc_P = 0, pc_Pcommit = 8\<rparr>, \<lparr>pc_P = 0, pc_Pcommit = 9\<rparr>]"
  have a: "handleCommitments ?x (cached 0) (req ''[]'' True)
     = (WriteError ErrorInvalidRequest (Text ''No key specified''), cached 0,
        [Logger Info ''Malformed request: no keys over which to commit specified''])"
    using handleCommitments_cases [where x = ?x and r = "req ''[]'' True" and s = "cached 0"
        and body = "''[]''" and keys = "[]" and cs = "[]" and commitID = 42 and cerr = None]
    by (simp add: sample_def req_def)
  have body: "Body (req ''[1,2]'' True) = (''[1,2]'', None)"
    by (simp add: req_def)
  have keys: "Unmarshal_keys ?x ''[1,2]'' = ([key1, key2], None)"
    by (simp add: sample_def)
  have core: "core_GenerateCommitments ?x (Coredata (ctx_user (req ''[1,2]'' True)))
                (ctx_authorization (req ''[1,2]'' True)) [key1, key2] = (?cs, 42, None)"
    by (simp add: sample_def key1_def key2_def)
  have texts: "\<forall>k \<in> set [key1, key2]. snd (MarshalText ?x k) = None"
    by (simp add: sample_def)
  note inst = handleCommitments_cases [OF body keys core, of ?s0]
  from inst texts obtain resp where run:
    "handleCommitments ?x ?s0 (req ''[1,2]'' True)
       = (WriteJson resp,
          ?s0\<lparr>sessions := (sessions ?s0)(Username (ctx_user (req ''[1,2]'' True)) \<mapsto>
               \<lparr>LastKeyID = [key1, key2] ! 0, LastCommitID = 42,
                 expiry = time_Now ?x + 10 * Second\<rparr>)\<rparr>,
          [Core_GenerateCommitments (Coredata (ctx_user (req ''[1,2]'' True)))
             (ctx_authorization (req ''[1,2]'' True)) [key1, key2],
           Sessions_Read (Username (ctx_user (req ''[1,2]'' True))),
           Sessions_Write (Username (ctx_user (req ''[1,2]'' True)))])"
    by auto
  from inst run have props:
    "dom (Commitments resp) = keyText ?x ` set [key1, key2]"
    "\<forall>j < length [key1, key2].
        (\<forall>l. j < l \<and> l < length [key1, key2] \<longrightarrow>
             keyText ?x ([key1, key2] ! l) \<noteq> keyText ?x ([key1, key2] ! j))
        \<longrightarrow> Commitments resp (keyText ?x ([key1, key2] ! j)) = Some (?cs ! j)"
    by blast+
  have d: "dom (Commitments resp) = {''irma-demo.MijnOverheid-1'', ''irma-demo.RU-2''}"
    using props(1) by (simp add: keyText_key1 keyText_key2)
  have c1: "Commitments resp ''irma-demo.MijnOverheid-1'' = Some \<lparr>pc_P = 0, pc_Pcommit = 8\<rparr>"
  proof -
    have later: "\<forall>l. 0 < l \<and> l < length [key1, key2] \<longrightarrow>
        keyText ?x ([key1, key2] ! l) \<noteq> keyText ?x ([key1, key2] ! 0)"
      by (auto simp: less_Suc_eq keyText_key1 keyText_key2)
    from props(2) [THEN spec, of 0] later show ?thesis
      by (simp add: keyText_key1)
  qed
  have c2: "Commitments resp ''irma-demo.RU-2'' = Some \<lparr>pc_P = 0, pc_Pcommit = 9\<rparr>"
  proof -
    have later: "\<forall>l. 1 < l \<and> l < length [key1, key2] \<longrightarrow>
        keyText ?x ([key1, key2] ! l) \<noteq> keyText ?x ([key1, key2] ! 1)"
      by auto
    from props(2) [THEN spec, of 1] later show ?thesis
      by (simp add: keyText_key2)
  qed
  have run': "handleCommitments ?x ?s0 (req ''[1,2]'' True)
           = (WriteJson resp,
              \<lparr>sessions = [''alice'' \<mapsto> \<lparr>LastKeyID = key1, LastCommitID = 42,
                                          expiry = 110 * Second\<rparr>]\<rparr>,
              [Core_GenerateCommitments [1, 2, 3] ''jwt.alice'' [key1, key2],
               Sessions_Read ''alice'', Sessions_Write ''alice''])"
    using run by (simp add: req_def alice_def sample_def Second_def)
  show ?thesis
    using a run' c1 c2 d by blast
qed

end
